theory Spec2Isabelle
  imports Main "HOL-Library.Word"
begin

unbundle bit_operations_syntax

section \<open>The socket layer of flinux (src/fs/socket.c)\<close>

text \<open>
  This theory is a shallow embedding of \<^verbatim>\<open>src/fs/socket.c\<close>: the translation of
  WinSock error codes into Linux error numbers, the sticky readiness bits that are
  kept per socket on top of \<^verbatim>\<open>WSAEnumNetworkEvents\<close>, the send and receive loops,
  and the system calls \<^verbatim>\<open>socket\<close>, \<^verbatim>\<open>connect\<close> and \<^verbatim>\<open>sendmmsg\<close>.

  C's \<^verbatim>\<open>int\<close> is modelled by \<^typ>\<open>int\<close>; the bit operations on \<^typ>\<open>int\<close> are those of
  two's complement, so \<^verbatim>\<open>x &= ~m\<close> is \<^term>\<open>x AND NOT m\<close>. Where the source converts a
  wider or unsigned sum into an \<^verbatim>\<open>int\<close>, the wrap-around is written out (\<open>int32\<close>).
\<close>

subsection \<open>Constants of the two platforms\<close>

text \<open>
  The numeric values below are not defined in \<^verbatim>\<open>socket.c\<close>: the file takes them from
  headers. The \<^verbatim>\<open>WSA...\<close> codes, \<^verbatim>\<open>FD_...\<close> event bits, \<^verbatim>\<open>AF_...\<close> and \<^verbatim>\<open>SOCK_...\<close>
  values are those of the Windows Sockets 2 interface; the error numbers, \<^verbatim>\<open>O_...\<close>,
  \<^verbatim>\<open>LINUX_...\<close> values are those of the Linux system call interface (i386) that the
  guest program is compiled against.
\<close>

definition WSA_NOT_ENOUGH_MEMORY :: int where "WSA_NOT_ENOUGH_MEMORY = 8"
definition WSAEINTR :: int where "WSAEINTR = 10004"
definition WSAEBADF :: int where "WSAEBADF = 10009"
definition WSAEACCES :: int where "WSAEACCES = 10013"
definition WSAEFAULT :: int where "WSAEFAULT = 10014"
definition WSAEINVAL :: int where "WSAEINVAL = 10022"
definition WSAEMFILE :: int where "WSAEMFILE = 10024"
definition WSAEWOULDBLOCK :: int where "WSAEWOULDBLOCK = 10035"
definition WSAEALREADY :: int where "WSAEALREADY = 10037"
definition WSAENOTSOCK :: int where "WSAENOTSOCK = 10038"
definition WSAEDESTADDRREQ :: int where "WSAEDESTADDRREQ = 10039"
definition WSAEMSGSIZE :: int where "WSAEMSGSIZE = 10040"
definition WSAEPROTOTYPE :: int where "WSAEPROTOTYPE = 10041"
definition WSAENOPROTOOPT :: int where "WSAENOPROTOOPT = 10042"
definition WSAEPROTONOSUPPORT :: int where "WSAEPROTONOSUPPORT = 10043"
definition WSAESOCKTNOSUPPORT :: int where "WSAESOCKTNOSUPPORT = 10044"
definition WSAEOPNOTSUPP :: int where "WSAEOPNOTSUPP = 10045"
definition WSAEPFNOSUPPORT :: int where "WSAEPFNOSUPPORT = 10046"
definition WSAEAFNOSUPPORT :: int where "WSAEAFNOSUPPORT = 10047"
definition WSAEADDRINUSE :: int where "WSAEADDRINUSE = 10048"
definition WSAEADDRNOTAVAIL :: int where "WSAEADDRNOTAVAIL = 10049"
definition WSAENETDOWN :: int where "WSAENETDOWN = 10050"
definition WSAENETUNREACH :: int where "WSAENETUNREACH = 10051"
definition WSAENETRESET :: int where "WSAENETRESET = 10052"
definition WSAECONNABORTED :: int where "WSAECONNABORTED = 10053"
definition WSAECONNRESET :: int where "WSAECONNRESET = 10054"
definition WSAENOBUFS :: int where "WSAENOBUFS = 10055"
definition WSAEISCONN :: int where "WSAEISCONN = 10056"
definition WSAENOTCONN :: int where "WSAENOTCONN = 10057"
definition WSAETIMEDOUT :: int where "WSAETIMEDOUT = 10060"
definition WSAECONNREFUSED :: int where "WSAECONNREFUSED = 10061"
definition WSAELOOP :: int where "WSAELOOP = 10062"
definition WSAENAMETOOLONG :: int where "WSAENAMETOOLONG = 10063"
definition WSAEHOSTDOWN :: int where "WSAEHOSTDOWN = 10064"
definition WSAEHOSTUNREACH :: int where "WSAEHOSTUNREACH = 10065"
definition WSAENOTEMPTY :: int where "WSAENOTEMPTY = 10066"
definition WSAECANCELLED :: int where "WSAECANCELLED = 10103"

definition EINTR :: int where "EINTR = 4"
definition EIO :: int where "EIO = 5"
definition EBADF :: int where "EBADF = 9"
definition EWOULDBLOCK :: int where "EWOULDBLOCK = 11"
definition ENOMEM :: int where "ENOMEM = 12"
definition EACCES :: int where "EACCES = 13"
definition EFAULT :: int where "EFAULT = 14"
definition EINVAL :: int where "EINVAL = 22"
definition ENFILE :: int where "ENFILE = 23"
definition EMFILE :: int where "EMFILE = 24"
definition ENAMETOOLONG :: int where "ENAMETOOLONG = 36"
definition ENOTEMPTY :: int where "ENOTEMPTY = 39"
definition ELOOP :: int where "ELOOP = 40"
definition ENOTSOCK :: int where "ENOTSOCK = 88"
definition EDESTADDRREQ :: int where "EDESTADDRREQ = 89"
definition EMSGSIZE :: int where "EMSGSIZE = 90"
definition EPROTOTYPE :: int where "EPROTOTYPE = 91"
definition ENOPROTOOPT :: int where "ENOPROTOOPT = 92"
definition EPROTONOSUPPORT :: int where "EPROTONOSUPPORT = 93"
definition EOPNOTSUPP :: int where "EOPNOTSUPP = 95"
definition EAFNOSUPPORT :: int where "EAFNOSUPPORT = 97"
definition EADDRINUSE :: int where "EADDRINUSE = 98"
definition EADDRNOTAVAIL :: int where "EADDRNOTAVAIL = 99"
definition ENETDOWN :: int where "ENETDOWN = 100"
definition ENETUNREACH :: int where "ENETUNREACH = 101"
definition ENETRESET :: int where "ENETRESET = 102"
definition ECONNABORTED :: int where "ECONNABORTED = 103"
definition ECONNRESET :: int where "ECONNRESET = 104"
definition ENOBUFS :: int where "ENOBUFS = 105"
definition EISCONN :: int where "EISCONN = 106"
definition ENOTCONN :: int where "ENOTCONN = 107"
definition ETIMEDOUT :: int where "ETIMEDOUT = 110"
definition ECONNREFUSED :: int where "ECONNREFUSED = 111"
definition EHOSTUNREACH :: int where "EHOSTUNREACH = 113"
definition EALREADY :: int where "EALREADY = 114"
definition EINPROGRESS :: int where "EINPROGRESS = 115"
definition ECANCELED :: int where "ECANCELED = 125"

text \<open>Event bits of \<^verbatim>\<open>WSAEventSelect\<close> and \<^verbatim>\<open>WSAEnumNetworkEvents\<close>.\<close>

definition FD_READ :: int where "FD_READ = 1"
definition FD_WRITE :: int where "FD_WRITE = 2"
definition FD_ACCEPT :: int where "FD_ACCEPT = 8"
definition FD_CONNECT :: int where "FD_CONNECT = 16"
definition FD_CLOSE :: int where "FD_CLOSE = 32"

text \<open>Address families and socket types, on the Linux side and on the Windows side.\<close>

definition LINUX_AF_UNSPEC :: int where "LINUX_AF_UNSPEC = 0"
definition LINUX_AF_UNIX :: int where "LINUX_AF_UNIX = 1"
definition LINUX_AF_INET :: int where "LINUX_AF_INET = 2"
definition LINUX_AF_INET6 :: int where "LINUX_AF_INET6 = 10"

definition AF_UNSPEC :: int where "AF_UNSPEC = 0"
definition AF_UNIX :: int where "AF_UNIX = 1"
definition AF_INET :: int where "AF_INET = 2"
definition AF_INET6 :: int where "AF_INET6 = 23"

definition LINUX_SOCK_STREAM :: int where "LINUX_SOCK_STREAM = 1"
definition LINUX_SOCK_DGRAM :: int where "LINUX_SOCK_DGRAM = 2"
definition LINUX_SOCK_RAW :: int where "LINUX_SOCK_RAW = 3"
definition LINUX_SOCK_RDM :: int where "LINUX_SOCK_RDM = 4"
definition LINUX_SOCK_SEQPACKET :: int where "LINUX_SOCK_SEQPACKET = 5"
definition LINUX_SOCK_TYPE_MASK :: int where "LINUX_SOCK_TYPE_MASK = 15"

definition SOCK_STREAM :: int where "SOCK_STREAM = 1"
definition SOCK_DGRAM :: int where "SOCK_DGRAM = 2"
definition SOCK_RAW :: int where "SOCK_RAW = 3"
definition SOCK_RDM :: int where "SOCK_RDM = 4"
definition SOCK_SEQPACKET :: int where "SOCK_SEQPACKET = 5"

text \<open>Open flags and message flags of Linux (\<^verbatim>\<open>04000\<close>, \<^verbatim>\<open>02000000\<close>, \<^verbatim>\<open>0x02\<close>, \<^verbatim>\<open>0x40\<close>).\<close>

definition O_NONBLOCK :: int where "O_NONBLOCK = 2048"
definition O_CLOEXEC :: int where "O_CLOEXEC = 524288"
definition LINUX_MSG_DONTWAIT :: int where "LINUX_MSG_DONTWAIT = 64"

text \<open>
  Conversion of a value to C's 32-bit \<^verbatim>\<open>int\<close>, as the assignments of unsigned sums
  and counts to \<^verbatim>\<open>int\<close> variables in \<^verbatim>\<open>sys_sendmmsg\<close> perform it.
\<close>

definition int32 :: "int \<Rightarrow> int" where
  "int32 x = sint (word_of_int x :: 32 word)"

subsection \<open>Data\<close>

text \<open>
  \<^verbatim>\<open>struct socket_file\<close>. Of the embedded \<^verbatim>\<open>struct file\<close> only the reference count is a
  field here; its \<^verbatim>\<open>op_vtable\<close> is the constructor of \<open>file_object\<close> below.
\<close>

record socket_file =
  ref :: int
  socket :: nat
  event_handle :: nat
  flags :: int
  events :: int
  connect_error :: int

datatype file_object = Socket_file socket_file | Other_file

text \<open>The guest's \<^verbatim>\<open>struct iovec\<close>, \<^verbatim>\<open>struct msghdr\<close> and \<^verbatim>\<open>struct mmsghdr\<close>. Pointers are
  addresses (\<^typ>\<open>nat\<close>); the array \<^verbatim>\<open>msg_iov\<close> points to is the list \<open>msg_iov\<close>, whose length
  is \<^verbatim>\<open>msg_iovlen\<close>, and \<open>msg_iov_addr\<close> is where it lies.\<close>

record iovec =
  iov_base :: nat
  iov_len :: nat

record msghdr =
  msg_name :: nat
  msg_namelen :: int
  msg_iov_addr :: nat
  msg_iov :: "iovec list"
  msg_control :: nat
  msg_controllen :: nat

record mmsghdr =
  msg_hdr :: msghdr
  msg_len :: nat

text \<open>WinSock's \<^verbatim>\<open>WSABUF\<close> and \<^verbatim>\<open>WSAMSG\<close>.\<close>

record wsabuf =
  len :: nat
  buf :: nat

record wsamsg =
  name :: nat
  namelen :: int
  lpBuffers :: "wsabuf list"
  Control :: wsabuf
  dwFlags :: int

text \<open>What a WinSock call returns: a value, or \<^verbatim>\<open>SOCKET_ERROR\<close> (\<^verbatim>\<open>INVALID_SOCKET\<close>)
  together with the code that \<^verbatim>\<open>WSAGetLastError\<close> then reports.\<close>

datatype native_result = Native_ok int | Native_error int

datatype log_level = Log_info | Log_warning | Log_error

type_synonym log_entry = "log_level \<times> string \<times> int list"

text \<open>A system call returns to the guest, or the process is gone (\<^verbatim>\<open>ExitProcess\<close>).\<close>

datatype outcome = Returns int | Exit_process int

subsection \<open>The platform and the state\<close>

text \<open>
  The code calls WinSock, the Win32 kernel, the descriptor table (\<^verbatim>\<open>vfs_...\<close>), the
  memory validator (\<^verbatim>\<open>mm_check_...\<close>) and the allocator. None of them is in
  \<^verbatim>\<open>socket.c\<close>, and what they answer is not determined by the program, so it is a
  parameter: a \<open>platform\<close> gives, for the \<open>n\<close>-th call made to the outside
  (\<open>clock\<close> counts them) and its arguments, what that call answers. Every run of the
  program against the real platform is the run of the model for some \<open>platform\<close>.
  The sizes of the structures of the guest are parameters in the same way.
\<close>

record platform =
  WSAStartup_result :: "nat \<Rightarrow> int"
  WSAEnumNetworkEvents_result :: "nat \<Rightarrow> nat \<Rightarrow> int \<times> int"
  sendto_result :: "nat \<Rightarrow> nat \<Rightarrow> nat \<Rightarrow> native_result"
  WSASendMsg_result :: "nat \<Rightarrow> nat \<Rightarrow> wsamsg \<Rightarrow> native_result"
  recvfrom_result :: "nat \<Rightarrow> nat \<Rightarrow> nat \<Rightarrow> int \<Rightarrow> native_result"
  connect_result :: "nat \<Rightarrow> nat \<Rightarrow> native_result"
  socket_result :: "nat \<Rightarrow> int \<Rightarrow> int \<Rightarrow> int \<Rightarrow> native_result"
  CreateEventW_result :: "nat \<Rightarrow> nat"
  WSAEventSelect_result :: "nat \<Rightarrow> native_result"
  kmalloc_result :: "nat \<Rightarrow> nat"
  vfs_store_file_result :: "nat \<Rightarrow> int"
  mm_check_read :: "nat \<Rightarrow> nat \<Rightarrow> bool"
  mm_check_write :: "nat \<Rightarrow> nat \<Rightarrow> bool"
  sizeof_sockaddr :: nat
  sizeof_msghdr :: nat
  sizeof_iovec :: nat
  sizeof_mmsghdr :: nat

text \<open>
  The state: the calls made so far, the thread's last WinSock error, the log, the
  byte counts of the messages that \<^verbatim>\<open>WSASendMsg\<close> has sent, the native sockets and event
  objects that are open, the event selection of each native socket (event object and
  mask), the flag \<^verbatim>\<open>socket_inited\<close>, the descriptor table and the file objects it
  points to.
\<close>

record state =
  clock :: nat
  last_error :: int
  logged :: "log_entry list"
  sent :: "int list"
  native_sockets :: "nat list"
  event_objects :: "nat list"
  event_select :: "nat \<rightharpoonup> nat \<times> int"
  socket_inited :: bool
  vfs_table :: "int \<rightharpoonup> nat \<times> bool"
  heap :: "nat \<rightharpoonup> file_object"

definition tick :: "state \<Rightarrow> state" where
  "tick s = s\<lparr>clock := Suc (clock s)\<rparr>"

definition log_info :: "string \<Rightarrow> int list \<Rightarrow> state \<Rightarrow> state" where
  "log_info fmt args s = s\<lparr>logged := logged s @ [(Log_info, fmt, args)]\<rparr>"

definition log_warning :: "string \<Rightarrow> int list \<Rightarrow> state \<Rightarrow> state" where
  "log_warning fmt args s = s\<lparr>logged := logged s @ [(Log_warning, fmt, args)]\<rparr>"

definition log_error :: "string \<Rightarrow> int list \<Rightarrow> state \<Rightarrow> state" where
  "log_error fmt args s = s\<lparr>logged := logged s @ [(Log_error, fmt, args)]\<rparr>"

definition WSAGetLastError :: "state \<Rightarrow> int" where
  "WSAGetLastError s = last_error s"

definition WSASetLastError :: "int \<Rightarrow> state \<Rightarrow> state" where
  "WSASetLastError e s = s\<lparr>last_error := e\<rparr>"

text \<open>A WinSock call that answers \<open>r\<close>: one more call made, and the last error set when
  it failed.\<close>

definition native_call :: "native_result \<Rightarrow> state \<Rightarrow> native_result \<times> state" where
  "native_call r s =
     (case r of
        Native_ok v \<Rightarrow> (r, tick s)
      | Native_error e \<Rightarrow> (r, WSASetLastError e (tick s)))"

subsection \<open>The error translator\<close>

definition translate_socket_error :: "int \<Rightarrow> state \<Rightarrow> int \<times> state" where
  "translate_socket_error error s =
    (if error = WSA_NOT_ENOUGH_MEMORY then (- ENOMEM, s)
     else if error = WSAEINTR then (- EINTR, s)
     else if error = WSAEBADF then (- EBADF, s)
     else if error = WSAEACCES then (- EACCES, s)
     else if error = WSAEFAULT then (- EFAULT, s)
     else if error = WSAEINVAL then (- EINVAL, s)
     else if error = WSAEMFILE then (- EMFILE, s)
     else if error = WSAEWOULDBLOCK then (- EWOULDBLOCK, s)
     else if error = WSAEALREADY then (- EALREADY, s)
     else if error = WSAENOTSOCK then (- ENOTSOCK, s)
     else if error = WSAEDESTADDRREQ then (- EDESTADDRREQ, s)
     else if error = WSAEMSGSIZE then (- EMSGSIZE, s)
     else if error = WSAEPROTOTYPE then (- EPROTOTYPE, s)
     else if error = WSAENOPROTOOPT then (- ENOPROTOOPT, s)
     else if error = WSAEPROTONOSUPPORT then (- EPROTONOSUPPORT, s)
     else if error = WSAESOCKTNOSUPPORT then (- EPROTONOSUPPORT, s)
     else if error = WSAEOPNOTSUPP then (- EOPNOTSUPP, s)
     else if error = WSAEPFNOSUPPORT then (- EAFNOSUPPORT, s)
     else if error = WSAEAFNOSUPPORT then (- EAFNOSUPPORT, s)
     else if error = WSAEADDRINUSE then (- EADDRINUSE, s)
     else if error = WSAEADDRNOTAVAIL then (- EADDRNOTAVAIL, s)
     else if error = WSAENETDOWN then (- ENETDOWN, s)
     else if error = WSAENETUNREACH then (- ENETUNREACH, s)
     else if error = WSAENETRESET then (- ENETRESET, s)
     else if error = WSAECONNABORTED then (- ECONNABORTED, s)
     else if error = WSAECONNRESET then (- ECONNRESET, s)
     else if error = WSAENOBUFS then (- ENOBUFS, s)
     else if error = WSAEISCONN then (- EISCONN, s)
     else if error = WSAENOTCONN then (- ENOTCONN, s)
     else if error = WSAETIMEDOUT then (- ETIMEDOUT, s)
     else if error = WSAECONNREFUSED then (- ECONNREFUSED, s)
     else if error = WSAELOOP then (- ELOOP, s)
     else if error = WSAENAMETOOLONG then (- ENAMETOOLONG, s)
     else if error = WSAEHOSTDOWN then (- ETIMEDOUT, s)
     else if error = WSAEHOSTUNREACH then (- EHOSTUNREACH, s)
     else if error = WSAENOTEMPTY then (- ENOTEMPTY, s)
     else if error = WSAECANCELLED then (- ECANCELED, s)
     else (- EIO, log_error ''Unhandled WSA error code: %d'' [error] s))"

text \<open>The same table as data: the host codes the \<^verbatim>\<open>switch\<close> has a \<^verbatim>\<open>case\<close> for, each with
  the value returned for it.\<close>

definition error_mapping_table :: "(int \<times> int) list" where
  "error_mapping_table = [
    (WSA_NOT_ENOUGH_MEMORY, - ENOMEM),
    (WSAEINTR, - EINTR),
    (WSAEBADF, - EBADF),
    (WSAEACCES, - EACCES),
    (WSAEFAULT, - EFAULT),
    (WSAEINVAL, - EINVAL),
    (WSAEMFILE, - EMFILE),
    (WSAEWOULDBLOCK, - EWOULDBLOCK),
    (WSAEALREADY, - EALREADY),
    (WSAENOTSOCK, - ENOTSOCK),
    (WSAEDESTADDRREQ, - EDESTADDRREQ),
    (WSAEMSGSIZE, - EMSGSIZE),
    (WSAEPROTOTYPE, - EPROTOTYPE),
    (WSAENOPROTOOPT, - ENOPROTOOPT),
    (WSAEPROTONOSUPPORT, - EPROTONOSUPPORT),
    (WSAESOCKTNOSUPPORT, - EPROTONOSUPPORT),
    (WSAEOPNOTSUPP, - EOPNOTSUPP),
    (WSAEPFNOSUPPORT, - EAFNOSUPPORT),
    (WSAEAFNOSUPPORT, - EAFNOSUPPORT),
    (WSAEADDRINUSE, - EADDRINUSE),
    (WSAEADDRNOTAVAIL, - EADDRNOTAVAIL),
    (WSAENETDOWN, - ENETDOWN),
    (WSAENETUNREACH, - ENETUNREACH),
    (WSAENETRESET, - ENETRESET),
    (WSAECONNABORTED, - ECONNABORTED),
    (WSAECONNRESET, - ECONNRESET),
    (WSAENOBUFS, - ENOBUFS),
    (WSAEISCONN, - EISCONN),
    (WSAENOTCONN, - ENOTCONN),
    (WSAETIMEDOUT, - ETIMEDOUT),
    (WSAECONNREFUSED, - ECONNREFUSED),
    (WSAELOOP, - ELOOP),
    (WSAENAMETOOLONG, - ENAMETOOLONG),
    (WSAEHOSTDOWN, - ETIMEDOUT),
    (WSAEHOSTUNREACH, - EHOSTUNREACH),
    (WSAENOTEMPTY, - ENOTEMPTY),
    (WSAECANCELLED, - ECANCELED)
  ]"

subsection \<open>The readiness engine\<close>

text \<open>
  \<^verbatim>\<open>WSAEnumNetworkEvents\<close> fills a \<^verbatim>\<open>WSANETWORKEVENTS\<close>; the code reads its
  \<^verbatim>\<open>lNetworkEvents\<close> and \<^verbatim>\<open>iErrorCode[FD_CONNECT_BIT]\<close> and ignores the call's own return
  value, so the call is modelled by these two numbers, as the platform leaves them.
\<close>

definition WSAEnumNetworkEvents :: "platform \<Rightarrow> nat \<Rightarrow> nat \<Rightarrow> state \<Rightarrow> (int \<times> int) \<times> state" where
  "WSAEnumNetworkEvents P sock ev s = (WSAEnumNetworkEvents_result P (clock s) sock, tick s)"

definition socket_update_events :: "platform \<Rightarrow> socket_file \<Rightarrow> int \<Rightarrow> state \<Rightarrow> int \<times> socket_file \<times> state" where
  "socket_update_events P f error_report_events s =
    (let ((lNetworkEvents, iErrorCode_connect), s1) =
           WSAEnumNetworkEvents P (socket f) (event_handle f) s;
         f1 = (if lNetworkEvents AND FD_READ \<noteq> 0 then f\<lparr>events := events f OR FD_READ\<rparr> else f);
         f2 = (if lNetworkEvents AND FD_WRITE \<noteq> 0 then f1\<lparr>events := events f1 OR FD_WRITE\<rparr> else f1);
         f3 = (if lNetworkEvents AND FD_ACCEPT \<noteq> 0 then f2\<lparr>events := events f2 OR FD_ACCEPT\<rparr> else f2);
         f4 = (if lNetworkEvents AND FD_CONNECT \<noteq> 0
               then f3\<lparr>events := events f3 OR FD_CONNECT, connect_error := iErrorCode_connect\<rparr>
               else f3);
         f5 = (if lNetworkEvents AND FD_CLOSE \<noteq> 0 then f4\<lparr>events := events f4 OR FD_CLOSE\<rparr> else f4);
         e = events f5
     in if error_report_events AND events f5 AND FD_CONNECT \<noteq> 0
        then (e, f5\<lparr>events := events f5 AND NOT FD_CONNECT, connect_error := 0\<rparr>,
              WSASetLastError (connect_error f5) s1)
        else (e, f5, s1))"

text \<open>\<^verbatim>\<open>WaitForSingleObject(handle, INFINITE)\<close>: one more call to the outside; what has
  happened meanwhile is what the next enumeration reports.\<close>

definition WaitForSingleObject :: "nat \<Rightarrow> state \<Rightarrow> state" where
  "WaitForSingleObject handle s = tick s"

text \<open>
  The \<^verbatim>\<open>do ... while (1)\<close> of \<^verbatim>\<open>socket_wait_event\<close> may run forever. The first argument
  bounds the number of rounds; \<open>None\<close> is a run that has not returned within the bound.
  It yields the returned value, the socket file and the state.
\<close>

fun socket_wait_event ::
  "nat \<Rightarrow> platform \<Rightarrow> socket_file \<Rightarrow> int \<Rightarrow> int \<Rightarrow> state \<Rightarrow> (int \<times> socket_file \<times> state) option" where
  "socket_wait_event 0 P f event flgs s = None"
| "socket_wait_event (Suc n) P f event flgs s =
    (let (e, f1, s1) = socket_update_events P f event s in
     if e AND event \<noteq> 0 then Some (0, f1, s1)
     else if flags f1 AND O_NONBLOCK \<noteq> 0 \<or> flgs AND LINUX_MSG_DONTWAIT \<noteq> 0
       then Some (- EWOULDBLOCK, f1, s1)
     else socket_wait_event n P f1 event flgs (WaitForSingleObject (event_handle f1) s1))"

text \<open>\<^verbatim>\<open>socket_get_poll_status\<close>: the coarse readiness (\<^verbatim>\<open>LINUX_POLLIN = 1\<close>,
  \<^verbatim>\<open>LINUX_POLLOUT = 4\<close>).\<close>

definition LINUX_POLLIN :: int where "LINUX_POLLIN = 1"
definition LINUX_POLLOUT :: int where "LINUX_POLLOUT = 4"

definition socket_get_poll_status :: "platform \<Rightarrow> socket_file \<Rightarrow> state \<Rightarrow> int \<times> socket_file \<times> state" where
  "socket_get_poll_status P f s =
    (let (e, f1, s1) = socket_update_events P f 0 s;
         ret0 = 0;
         ret1 = (if e AND FD_READ \<noteq> 0 then ret0 OR LINUX_POLLIN else ret0);
         ret2 = (if e AND FD_WRITE \<noteq> 0 then ret1 OR LINUX_POLLOUT else ret1)
     in (ret2, f1, s1))"

subsection \<open>Sending and receiving\<close>

definition native_sendto :: "platform \<Rightarrow> nat \<Rightarrow> nat \<Rightarrow> nat \<Rightarrow> state \<Rightarrow> native_result \<times> state" where
  "native_sendto P sock b n s = native_call (sendto_result P (clock s) sock n) s"


text \<open>\<^verbatim>\<open>WSASendMsg\<close> stores the number of bytes it has sent through its fourth argument;
  \<open>Native_ok n\<close> is a call that succeeds and stores \<open>n\<close>. The state keeps the byte
  counts of the messages sent, in order.\<close>

definition WSASendMsg :: "platform \<Rightarrow> nat \<Rightarrow> wsamsg \<Rightarrow> state \<Rightarrow> native_result \<times> state" where
  "WSASendMsg P sock m s =
     (case WSASendMsg_result P (clock s) sock m of
        Native_ok n \<Rightarrow> (Native_ok n, (tick s)\<lparr>sent := sent s @ [n]\<rparr>)
      | Native_error e \<Rightarrow> (Native_error e, WSASetLastError e (tick s)))"

text \<open>
  The \<^verbatim>\<open>while\<close> loops of \<^verbatim>\<open>socket_sendto\<close>, \<^verbatim>\<open>socket_sendmsg\<close> and \<^verbatim>\<open>socket_recvfrom\<close>, bounded
  as the wait is. \<open>b\<close> and \<open>n\<close> are the buffer and its length; the address arguments
  (\<^verbatim>\<open>dest_addr\<close>, \<^verbatim>\<open>src_addr\<close>, \<^verbatim>\<open>addrlen\<close>) are passed on to the platform unread and are
  left out.
\<close>

fun socket_sendto_loop ::
  "nat \<Rightarrow> platform \<Rightarrow> socket_file \<Rightarrow> nat \<Rightarrow> nat \<Rightarrow> int \<Rightarrow> state \<Rightarrow> (int \<times> socket_file \<times> state) option" where
  "socket_sendto_loop 0 P f b n flgs s = None"
| "socket_sendto_loop (Suc k) P f b n flgs s =
    (case socket_wait_event (Suc k) P f FD_WRITE flgs s of
       None \<Rightarrow> None
     | Some (r, f1, s1) \<Rightarrow>
         if r \<noteq> 0 then Some (r, f1, s1)
         else
           (case native_sendto P (socket f1) b n s1 of
              (Native_ok r1, s2) \<Rightarrow> Some (r1, f1, s2)
            | (Native_error _, s2) \<Rightarrow>
                (let err = WSAGetLastError s2 in
                 if err \<noteq> WSAEWOULDBLOCK
                 then (let (g, s3) = translate_socket_error err
                                       (log_warning ''sendto() failed, error code: %d'' [err] s2)
                       in Some (g, f1, s3))
                 else socket_sendto_loop k P (f1\<lparr>events := events f1 AND NOT FD_WRITE\<rparr>) b n flgs s2)))"

definition socket_sendto ::
  "nat \<Rightarrow> platform \<Rightarrow> socket_file \<Rightarrow> nat \<Rightarrow> nat \<Rightarrow> int \<Rightarrow> state \<Rightarrow> (int \<times> socket_file \<times> state) option" where
  "socket_sendto fuel P f b n flgs s =
     socket_sendto_loop fuel P f b n flgs
       (if flgs AND NOT LINUX_MSG_DONTWAIT \<noteq> 0
        then log_error ''flags (0x%x) contains unsupported bits.'' [flgs] s else s)"

text \<open>The adaptation of the guest's message to a \<^verbatim>\<open>WSAMSG\<close>, segment by segment.\<close>

definition wsamsg_of :: "msghdr \<Rightarrow> wsamsg" where
  "wsamsg_of msg =
     \<lparr>name = msg_name msg, namelen = msg_namelen msg,
      lpBuffers = map (\<lambda>v. \<lparr>len = iov_len v, buf = iov_base v\<rparr>) (msg_iov msg),
      Control = \<lparr>len = msg_controllen msg, buf = msg_control msg\<rparr>,
      dwFlags = 0\<rparr>"

fun socket_sendmsg_loop ::
  "nat \<Rightarrow> platform \<Rightarrow> socket_file \<Rightarrow> wsamsg \<Rightarrow> int \<Rightarrow> state \<Rightarrow> (int \<times> socket_file \<times> state) option" where
  "socket_sendmsg_loop 0 P f m flgs s = None"
| "socket_sendmsg_loop (Suc k) P f m flgs s =
    (case socket_wait_event (Suc k) P f FD_WRITE flgs s of
       None \<Rightarrow> None
     | Some (r, f1, s1) \<Rightarrow>
         if r \<noteq> 0 then Some (r, f1, s1)
         else
           (case WSASendMsg P (socket f1) m s1 of
              (Native_ok r1, s2) \<Rightarrow> Some (r1, f1, s2)
            | (Native_error _, s2) \<Rightarrow>
                (let err = WSAGetLastError s2 in
                 if err \<noteq> WSAEWOULDBLOCK
                 then (let (g, s3) = translate_socket_error err
                                       (log_warning ''WSASendMsg() failed, error code: %d'' [err] s2)
                       in Some (g, f1, s3))
                 else socket_sendmsg_loop k P (f1\<lparr>flags := flags f1 AND NOT FD_WRITE\<rparr>) m flgs s2)))"

definition socket_sendmsg ::
  "nat \<Rightarrow> platform \<Rightarrow> socket_file \<Rightarrow> msghdr \<Rightarrow> int \<Rightarrow> state \<Rightarrow> (int \<times> socket_file \<times> state) option" where
  "socket_sendmsg fuel P f msg flgs s =
     socket_sendmsg_loop fuel P f (wsamsg_of msg) flgs
       (if flgs AND NOT LINUX_MSG_DONTWAIT \<noteq> 0
        then log_error ''socket_sendmsg(): flags (0x%x) contains unsupported bits.'' [flgs] s else s)"



subsection \<open>Native sockets, event objects and the descriptor table\<close>

definition native_socket :: "platform \<Rightarrow> int \<Rightarrow> int \<Rightarrow> int \<Rightarrow> state \<Rightarrow> native_result \<times> state" where
  "native_socket P af ty protocol s =
     (case socket_result P (clock s) af ty protocol of
        Native_ok h \<Rightarrow> (Native_ok h, (tick s)\<lparr>native_sockets := nat h # native_sockets s\<rparr>)
      | Native_error e \<Rightarrow> (Native_error e, WSASetLastError e (tick s)))"

definition closesocket :: "nat \<Rightarrow> state \<Rightarrow> state" where
  "closesocket sock s =
     (tick s)\<lparr>native_sockets := removeAll sock (native_sockets s),
              event_select := (event_select s)(sock := None)\<rparr>"

text \<open>\<^verbatim>\<open>CreateEventW\<close> answers a handle, or \<^verbatim>\<open>NULL\<close>, which is \<open>0\<close>.\<close>

definition CreateEventW :: "platform \<Rightarrow> state \<Rightarrow> nat \<times> state" where
  "CreateEventW P s =
     (let handle = CreateEventW_result P (clock s) in
      if handle = 0 then (0, tick s)
      else (handle, (tick s)\<lparr>event_objects := handle # event_objects s\<rparr>))"

definition CloseHandle :: "nat \<Rightarrow> state \<Rightarrow> state" where
  "CloseHandle handle s = (tick s)\<lparr>event_objects := removeAll handle (event_objects s)\<rparr>"

text \<open>\<^verbatim>\<open>WSAEventSelect(sock, handle, lNetworkEvents)\<close>: when it succeeds, the native socket reports
  the event classes of \<open>lNetworkEvents\<close>, and no others, through \<open>handle\<close>.\<close>

definition WSAEventSelect :: "platform \<Rightarrow> nat \<Rightarrow> nat \<Rightarrow> int \<Rightarrow> state \<Rightarrow> native_result \<times> state" where
  "WSAEventSelect P sock handle lNetworkEvents s =
     (case WSAEventSelect_result P (clock s) of
        Native_ok v \<Rightarrow> (Native_ok v, (tick s)\<lparr>event_select := (event_select s)(sock \<mapsto> (handle, lNetworkEvents))\<rparr>)
      | Native_error e \<Rightarrow> (Native_error e, WSASetLastError e (tick s)))"

definition init_socket_event :: "platform \<Rightarrow> nat \<Rightarrow> state \<Rightarrow> nat \<times> state" where
  "init_socket_event P sock s =
     (let (handle, s1) = CreateEventW P s in
      if handle = 0
      then (0, log_error ''CreateEventW() failed, error code: %d'' [last_error s1] s1)
      else
        (case WSAEventSelect P sock handle (FD_READ OR FD_WRITE OR FD_ACCEPT OR FD_CONNECT) s1 of
           (Native_error _, s2) \<Rightarrow>
             (0, CloseHandle handle
                   (log_error ''WSAEventSelect() failed, error code: %d'' [WSAGetLastError s2] s2))
         | (Native_ok _, s2) \<Rightarrow> (handle, s2)))"

definition socket_close :: "nat \<Rightarrow> socket_file \<Rightarrow> state \<Rightarrow> state" where
  "socket_close p f s =
     (let s1 = closesocket (socket f) s;
          s2 = CloseHandle (event_handle f) s1
      in s2\<lparr>heap := (heap s2)(p := None)\<rparr>)"

text \<open>
  Modelled from the spec: the descriptor table (\<^verbatim>\<open>vfs_get\<close>, \<^verbatim>\<open>vfs_store_file\<close>,
  \<^verbatim>\<open>vfs_release\<close>) is not in \<^verbatim>\<open>socket.c\<close>. The spec describes it as
  \<open>resolve(descriptor) -> resource | not-found\<close>,
  \<open>store(resource, close_on_exec) -> descriptor\<close> and
  \<open>release(resource)\<close>, which decrements the reference count and destroys the resource
  at zero. Which descriptor \<open>store\<close> hands out, or that it fails (a negative value), is
  the platform's answer.
\<close>

definition vfs_get :: "state \<Rightarrow> int \<Rightarrow> nat option" where
  "vfs_get s fd = map_option fst (vfs_table s fd)"

definition vfs_store_file :: "platform \<Rightarrow> nat \<Rightarrow> bool \<Rightarrow> state \<Rightarrow> int \<times> state" where
  "vfs_store_file P p cloexec s =
     (let fd = vfs_store_file_result P (clock s) in
      if fd < 0 then (fd, tick s)
      else (fd, (tick s)\<lparr>vfs_table := (vfs_table s)(fd \<mapsto> (p, cloexec))\<rparr>))"

definition vfs_release :: "nat \<Rightarrow> state \<Rightarrow> state" where
  "vfs_release p s =
     (case heap s p of
        Some (Socket_file f) \<Rightarrow>
          if ref f - 1 = 0 then socket_close p f s
          else s\<lparr>heap := (heap s)(p \<mapsto> Socket_file (f\<lparr>ref := ref f - 1\<rparr>))\<rparr>
      | _ \<Rightarrow> s)"

definition get_sockfd :: "state \<Rightarrow> int \<Rightarrow> int + nat \<times> socket_file" where
  "get_sockfd s fd =
     (case vfs_get s fd of
        None \<Rightarrow> Inl (- EBADF)
      | Some p \<Rightarrow>
          (case heap s p of
             Some (Socket_file f) \<Rightarrow> Inr (p, f)
           | _ \<Rightarrow> Inl (- ENOTSOCK)))"

text \<open>The changes a call has made to the socket file \<open>f\<close> at address \<open>p\<close> are changes of
  the object in the heap.\<close>

definition store_socket_file :: "nat \<Rightarrow> socket_file \<Rightarrow> state \<Rightarrow> state" where
  "store_socket_file p f s = s\<lparr>heap := (heap s)(p \<mapsto> Socket_file f)\<rparr>"

subsection \<open>The system calls\<close>

text \<open>\<open>False\<close> is the path that ends in \<^verbatim>\<open>ExitProcess(1)\<close>. The version numbers that the
  second log line prints are not modelled.\<close>

definition socket_ensure_initialized :: "platform \<Rightarrow> state \<Rightarrow> bool \<times> state" where
  "socket_ensure_initialized P s =
     (if \<not> socket_inited s then
        (let r = WSAStartup_result P (clock s); s1 = tick s in
         if r \<noteq> 0 then (False, log_error ''WSAStartup() failed, error code: %d'' [r] s1)
         else (True, log_info ''WinSock2 initialized, version: %d.%d'' []
                       (s1\<lparr>socket_inited := True\<rparr>)))
      else (True, s))"

text \<open>The two \<^verbatim>\<open>switch\<close> statements of \<^verbatim>\<open>sys_socket\<close>; \<open>None\<close> is their \<^verbatim>\<open>default\<close>.\<close>

definition win32_af :: "int \<Rightarrow> int option" where
  "win32_af domain =
     (if domain = LINUX_AF_UNSPEC then Some AF_UNSPEC
      else if domain = LINUX_AF_UNIX then Some AF_UNIX
      else if domain = LINUX_AF_INET then Some AF_INET
      else if domain = LINUX_AF_INET6 then Some AF_INET6
      else None)"

definition win32_type :: "int \<Rightarrow> int option" where
  "win32_type ty =
     (if ty = LINUX_SOCK_DGRAM then Some SOCK_DGRAM
      else if ty = LINUX_SOCK_STREAM then Some SOCK_STREAM
      else if ty = LINUX_SOCK_RAW then Some SOCK_RAW
      else if ty = LINUX_SOCK_RDM then Some SOCK_RDM
      else if ty = LINUX_SOCK_SEQPACKET then Some SOCK_SEQPACKET
      else None)"

definition sys_socket :: "platform \<Rightarrow> int \<Rightarrow> int \<Rightarrow> int \<Rightarrow> state \<Rightarrow> outcome \<times> state" where
  "sys_socket P domain ty protocol s =
    (case socket_ensure_initialized P
            (log_info ''socket(domain=%d, type=%d, protocol=%d)'' [domain, ty, protocol] s) of
       (False, s1) \<Rightarrow> (Exit_process 1, s1)
     | (True, s1) \<Rightarrow>
    (case win32_af domain of
       None \<Rightarrow> (Returns (- EAFNOSUPPORT), s1)
     | Some af \<Rightarrow>
    (case win32_type (ty AND LINUX_SOCK_TYPE_MASK) of
       None \<Rightarrow> (Returns (- EPROTONOSUPPORT), s1)
     | Some wty \<Rightarrow>
    (let win32_protocol = protocol in
     if protocol \<noteq> 0
     then (Returns (- EPROTONOSUPPORT), log_error ''protocol(%d) != 0'' [protocol] s1)
     else
    (case native_socket P af wty win32_protocol s1 of
       (Native_error _, s2) \<Rightarrow>
         (let (g, s3) = translate_socket_error (WSAGetLastError s2)
                          (log_warning ''socket() failed, error code: %d'' [WSAGetLastError s2] s2)
          in (Returns g, s3))
     | (Native_ok h, s2) \<Rightarrow>
    (let sock = nat h;
         (handle, s3) = init_socket_event P sock s2 in
     if handle = 0
     then (Returns (- ENFILE), log_error ''init_socket_event() failed.'' [] (closesocket sock s3))
     else
       (let p = kmalloc_result P (clock s3);
            f0 = \<lparr>ref = 1, socket = sock, event_handle = handle,
                  flags = 0, events = 0, connect_error = 0\<rparr>;
            f = (if ty AND O_NONBLOCK \<noteq> 0 then f0\<lparr>flags := flags f0 OR O_NONBLOCK\<rparr> else f0);
            s4 = store_socket_file p f (tick s3);
            (fd, s5) = vfs_store_file P p (ty AND O_CLOEXEC > 0) s4;
            s6 = (if fd < 0 then vfs_release p s5 else s5)
        in (Returns fd, log_info ''socket fd: %d'' [fd] s6))))))))"

definition native_connect :: "platform \<Rightarrow> nat \<Rightarrow> nat \<Rightarrow> nat \<Rightarrow> state \<Rightarrow> native_result \<times> state" where
  "native_connect P sock addr addrlen s = native_call (connect_result P (clock s) sock) s"

definition sys_connect ::
  "nat \<Rightarrow> platform \<Rightarrow> int \<Rightarrow> nat \<Rightarrow> nat \<Rightarrow> state \<Rightarrow> (int \<times> state) option" where
  "sys_connect fuel P sockfd addr addrlen s0 =
    (let s = log_info ''connect(%d, %p, %d)'' [sockfd, int addr, int addrlen] s0 in
     if \<not> mm_check_read P addr (sizeof_sockaddr P) then Some (- EFAULT, s)
     else
       (case get_sockfd s sockfd of
          Inl r \<Rightarrow> Some (r, s)
        | Inr (p, f) \<Rightarrow>
            (case native_connect P (socket f) addr addrlen s of
               (Native_ok _, s1) \<Rightarrow> Some (0, s1)
             | (Native_error _, s1) \<Rightarrow>
                 (let err = WSAGetLastError s1 in
                  if err \<noteq> WSAEWOULDBLOCK
                  then (let (g, s2) = translate_socket_error err
                                        (log_warning ''connect() failed, error code: %d'' [err] s1)
                        in Some (g, s2))
                  else if flags f AND O_NONBLOCK > 0
                  then Some (- EINPROGRESS, log_info ''connect() returned EINPROGRESS.'' [] s1)
                  else
                    (case socket_wait_event fuel P f FD_CONNECT 0 s1 of
                       None \<Rightarrow> None
                     | Some (_, f1, s2) \<Rightarrow>
                         Some (WSAGetLastError s2, store_socket_file p f1 s2))))))"

text \<open>The loop over the segments in \<^verbatim>\<open>mm_check_read_msghdr\<close>.\<close>

fun mm_check_read_iov :: "platform \<Rightarrow> nat \<Rightarrow> iovec list \<Rightarrow> state \<Rightarrow> bool \<times> state" where
  "mm_check_read_iov P i [] s = (True, s)"
| "mm_check_read_iov P i (v # vs) s =
     (let s1 = log_info ''iov %d: [%p, %p)'' [int i, int (iov_base v), int (iov_base v + iov_len v)] s in
      if \<not> mm_check_read P (iov_base v) (iov_len v) then (False, s1)
      else mm_check_read_iov P (Suc i) vs s1)"

text \<open>\<open>msg\<close> is the address of the \<^verbatim>\<open>struct msghdr\<close> and \<open>m\<close> what is stored there.\<close>

definition mm_check_read_msghdr :: "platform \<Rightarrow> nat \<Rightarrow> msghdr \<Rightarrow> state \<Rightarrow> bool \<times> state" where
  "mm_check_read_msghdr P msg m s =
     (if \<not> mm_check_read P msg (sizeof_msghdr P) then (False, s)
      else if length (msg_iov m) \<noteq> 0 \<and>
              \<not> mm_check_read P (msg_iov_addr m) (sizeof_iovec P * length (msg_iov m))
        then (False, s)
      else if msg_controllen m \<noteq> 0 \<and> \<not> mm_check_read P (msg_control m) (msg_controllen m)
        then (False, s)
      else mm_check_read_iov P 0 (msg_iov m) s)"

text \<open>The first loop of \<^verbatim>\<open>sys_sendmmsg\<close>: every message of the vector is validated before
  anything is sent. \<open>msgvec\<close> is the address of the vector and the list its elements
  from index \<open>i\<close> on. Addresses and sizes are natural numbers: products such as
  \<^verbatim>\<open>sizeof(struct mmsghdr) * vlen\<close> are taken without the wrap-around of \<^verbatim>\<open>size_t\<close>.\<close>

fun sendmmsg_check :: "platform \<Rightarrow> nat \<Rightarrow> nat \<Rightarrow> mmsghdr list \<Rightarrow> state \<Rightarrow> bool \<times> state" where
  "sendmmsg_check P msgvec i [] s = (True, s)"
| "sendmmsg_check P msgvec i (m # ms) s =
     (case mm_check_read_msghdr P (msgvec + i * sizeof_mmsghdr P) (msg_hdr m)
             (log_info ''msgvec %d:'' [int i] s) of
        (False, s1) \<Rightarrow> (False, s1)
      | (True, s1) \<Rightarrow> sendmmsg_check P msgvec (Suc i) ms s1)"

text \<open>\<^verbatim>\<open>total\<close>: the sum of the segment lengths, accumulated in an \<^verbatim>\<open>int\<close>.\<close>

definition iov_total :: "msghdr \<Rightarrow> int" where
  "iov_total m = fold (\<lambda>v total. int32 (total + int (iov_len v))) (msg_iov m) 0"

text \<open>The second loop of \<^verbatim>\<open>sys_sendmmsg\<close>, from index \<open>i\<close> on. It yields the returned
  value, the vector as the loop leaves it in the guest's memory, the socket file and
  the state.\<close>

function sendmmsg_loop ::
  "nat \<Rightarrow> platform \<Rightarrow> socket_file \<Rightarrow> int \<Rightarrow> nat \<Rightarrow> mmsghdr list \<Rightarrow> state
     \<Rightarrow> (int \<times> mmsghdr list \<times> socket_file \<times> state) option" where
  "sendmmsg_loop fuel P f flgs i msgs s =
    (if i < length msgs then
       (case socket_sendmsg fuel P f (msg_hdr (msgs ! i)) flgs s of
          None \<Rightarrow> None
        | Some (n, f1, s1) \<Rightarrow>
            if i = 0 \<and> n < 0 then Some (n, msgs, f1, s1)
            else if i = 0 \<and> n = 0 then Some (- EWOULDBLOCK, msgs, f1, s1)
            else if n \<le> 0 then Some (int i, msgs, f1, s1)
            else
              (let msgs1 = msgs[i := (msgs ! i)\<lparr>msg_len := nat n\<rparr>];
                   total = iov_total (msg_hdr (msgs1 ! i))
               in if n < total then Some (int i + 1, msgs1, f1, s1)
                  else sendmmsg_loop fuel P f1 flgs (Suc i) msgs1 s1))
     else Some (int32 (int (length msgs)), msgs, f, s))"
  by pat_completeness auto
termination
  by (relation "measure (\<lambda>(fuel, P, f, flgs, i, msgs, s). length msgs - i)") auto

declare sendmmsg_loop.simps [simp del]

definition sys_sendmmsg ::
  "nat \<Rightarrow> platform \<Rightarrow> int \<Rightarrow> nat \<Rightarrow> mmsghdr list \<Rightarrow> int \<Rightarrow> state
     \<Rightarrow> (int \<times> mmsghdr list \<times> state) option" where
  "sys_sendmmsg fuel P sockfd msgvec msgs flgs s0 =
    (let vlen = length msgs;
         s = log_info ''sendmmsg(sockfd=%d, msgvec=%p, vlen=%d, flags=%d)''
               [sockfd, int msgvec, int vlen, flgs] s0 in
     if \<not> mm_check_write P msgvec (sizeof_mmsghdr P * vlen) then Some (- EFAULT, msgs, s)
     else
       (case sendmmsg_check P msgvec 0 msgs s of
          (False, s1) \<Rightarrow> Some (- EFAULT, msgs, s1)
        | (True, s1) \<Rightarrow>
            (case get_sockfd s1 sockfd of
               Inl r \<Rightarrow> Some (r, msgs, s1)
             | Inr (p, f) \<Rightarrow>
                 (case sendmmsg_loop fuel P f flgs 0 msgs s1 of
                    None \<Rightarrow> None
                  | Some (r, msgs1, f1, s2) \<Rightarrow> Some (r, msgs1, store_socket_file p f1 s2)))))"

subsection \<open>The readiness bits after an update\<close>

text \<open>The bitmask \<open>x\<close> with the classes of a notification \<open>l\<close> folded in, as the five
  \<^verbatim>\<open>if\<close> statements of \<^verbatim>\<open>socket_update_events\<close> compute it (see \<open>socket_update_events_eq\<close>).\<close>

definition folded :: "int \<Rightarrow> int \<Rightarrow> int" where
  "folded x l =
     x OR (l AND FD_READ) OR (l AND FD_WRITE) OR (l AND FD_ACCEPT) OR (l AND FD_CONNECT)
       OR (l AND FD_CLOSE)"

subsection \<open>What the platform answers to a message\<close>

text \<open>The platform answers \<open>a\<close> whenever it is asked to send the message \<open>msg\<close>: \<open>Native_ok n\<close>
  when it sends \<open>n\<close> bytes of it, \<open>Native_error e\<close> when it fails with the code \<open>e\<close>.\<close>

definition platform_answers :: "platform \<Rightarrow> msghdr \<Rightarrow> native_result \<Rightarrow> bool" where
  "platform_answers P msg a = (\<forall>c sock. WSASendMsg_result P c sock (wsamsg_of msg) = a)"

subsection \<open>Example inputs\<close>

text \<open>
  A platform on which every call succeeds and nothing is ever notified, a state in
  which nothing has happened yet, and a state with one blocking socket (native socket
  \<open>7\<close>, event object \<open>9\<close>) at address \<open>1\<close> under descriptor \<open>3\<close>. The examples of the
  theorems below are variations of them.
\<close>

definition example_platform :: platform where
  "example_platform =
     \<lparr>WSAStartup_result = (\<lambda>c. 0),
      WSAEnumNetworkEvents_result = (\<lambda>c sock. (0, 0)),
      sendto_result = (\<lambda>c sock n. Native_ok (int n)),
      WSASendMsg_result = (\<lambda>c sock m. Native_ok (sum_list (map (\<lambda>w. int (len w)) (lpBuffers m)))),
      recvfrom_result = (\<lambda>c sock n flgs. Native_ok (int n)),
      connect_result = (\<lambda>c sock. Native_ok 0),
      socket_result = (\<lambda>c af ty protocol. Native_ok 7),
      CreateEventW_result = (\<lambda>c. 9),
      WSAEventSelect_result = (\<lambda>c. Native_ok 0),
      kmalloc_result = (\<lambda>c. 1),
      vfs_store_file_result = (\<lambda>c. 3),
      mm_check_read = (\<lambda>a n. True),
      mm_check_write = (\<lambda>a n. True),
      sizeof_sockaddr = 16,
      sizeof_msghdr = 28,
      sizeof_iovec = 8,
      sizeof_mmsghdr = 32\<rparr>"

definition boot_state :: state where
  "boot_state =
     \<lparr>clock = 0, last_error = 0, logged = [], sent = [], native_sockets = [],
      event_objects = [], event_select = Map.empty, socket_inited = False,
      vfs_table = Map.empty, heap = Map.empty\<rparr>"

definition example_socket :: socket_file where
  "example_socket =
     \<lparr>ref = 1, socket = 7, event_handle = 9, flags = 0, events = 0, connect_error = 0\<rparr>"

definition example_state :: state where
  "example_state =
     \<lparr>clock = 0, last_error = 0, logged = [], sent = [], native_sockets = [7],
      event_objects = [9], event_select = [7 \<mapsto> (9, 27)], socket_inited = True,
      vfs_table = [3 \<mapsto> (1, False)], heap = [1 \<mapsto> Socket_file example_socket]\<rparr>"

text \<open>A message of one segment of \<open>n\<close> bytes at address \<open>a\<close>.\<close>

definition example_msg :: "nat \<Rightarrow> nat \<Rightarrow> mmsghdr" where
  "example_msg a n =
     \<lparr>msg_hdr = \<lparr>msg_name = 0, msg_namelen = 0, msg_iov_addr = a,
                 msg_iov = [\<lparr>iov_base = a + 8, iov_len = n\<rparr>],
                 msg_control = 0, msg_controllen = 0\<rparr>,
      msg_len = 0\<rparr>"

text \<open>The state with the socket write-ready, and a vector of three messages of 5, 6
  and 7 bytes at address \<open>1000\<close>.\<close>

definition ready_state :: state where
  "ready_state = example_state\<lparr>heap := [1 \<mapsto> Socket_file (example_socket\<lparr>events := FD_WRITE\<rparr>)]\<rparr>"


section \<open>Properties\<close>

subsection \<open>The constants, collected\<close>

lemmas wsa_defs =
  WSA_NOT_ENOUGH_MEMORY_def WSAEINTR_def WSAEBADF_def WSAEACCES_def
  WSAEFAULT_def WSAEINVAL_def WSAEMFILE_def WSAEWOULDBLOCK_def
  WSAEALREADY_def WSAENOTSOCK_def WSAEDESTADDRREQ_def WSAEMSGSIZE_def
  WSAEPROTOTYPE_def WSAENOPROTOOPT_def WSAEPROTONOSUPPORT_def WSAESOCKTNOSUPPORT_def
  WSAEOPNOTSUPP_def WSAEPFNOSUPPORT_def WSAEAFNOSUPPORT_def WSAEADDRINUSE_def
  WSAEADDRNOTAVAIL_def WSAENETDOWN_def WSAENETUNREACH_def WSAENETRESET_def
  WSAECONNABORTED_def WSAECONNRESET_def WSAENOBUFS_def WSAEISCONN_def
  WSAENOTCONN_def WSAETIMEDOUT_def WSAECONNREFUSED_def WSAELOOP_def
  WSAENAMETOOLONG_def WSAEHOSTDOWN_def WSAEHOSTUNREACH_def WSAENOTEMPTY_def
  WSAECANCELLED_def


lemmas fd_defs = FD_READ_def FD_WRITE_def FD_ACCEPT_def FD_CONNECT_def FD_CLOSE_def


lemmas af_defs =
  LINUX_AF_UNSPEC_def LINUX_AF_UNIX_def LINUX_AF_INET_def LINUX_AF_INET6_def
  AF_UNSPEC_def AF_UNIX_def AF_INET_def AF_INET6_def

lemmas sock_defs =
  LINUX_SOCK_STREAM_def LINUX_SOCK_DGRAM_def LINUX_SOCK_RAW_def LINUX_SOCK_RDM_def
  LINUX_SOCK_SEQPACKET_def LINUX_SOCK_TYPE_MASK_def
  SOCK_STREAM_def SOCK_DGRAM_def SOCK_RAW_def SOCK_RDM_def SOCK_SEQPACKET_def

subsection \<open>Auxiliary facts\<close>

lemma tick_simps [simp]:
  "clock (tick s) = Suc (clock s)" "last_error (tick s) = last_error s"
  "logged (tick s) = logged s" "sent (tick s) = sent s"
  "native_sockets (tick s) = native_sockets s" "event_objects (tick s) = event_objects s"
  "event_select (tick s) = event_select s" "socket_inited (tick s) = socket_inited s"
  "vfs_table (tick s) = vfs_table s" "heap (tick s) = heap s"
  by (simp_all add: tick_def)

lemma and_single_bit: "(l::int) AND 2 ^ k \<noteq> 0 \<Longrightarrow> l AND 2 ^ k = 2 ^ k"
proof -
  assume "l AND 2 ^ k \<noteq> 0"
  then have k: "bit l k" by (simp add: and_exp_eq_0_iff_not_bit)
  show ?thesis
  proof (rule bit_eqI)
    fix n
    show "bit (l AND 2 ^ k) n = bit (2 ^ k :: int) n"
      using k by (auto simp: bit_and_iff bit_exp_iff)
  qed
qed

lemma fd_bit_cases:
  "l AND FD_READ = 0 \<or> l AND FD_READ = FD_READ"
  "l AND FD_WRITE = 0 \<or> l AND FD_WRITE = FD_WRITE"
  "l AND FD_ACCEPT = 0 \<or> l AND FD_ACCEPT = FD_ACCEPT"
  "l AND FD_CONNECT = 0 \<or> l AND FD_CONNECT = FD_CONNECT"
  "l AND FD_CLOSE = 0 \<or> l AND FD_CLOSE = FD_CLOSE"
  using and_single_bit [of l 0] and_single_bit [of l 1] and_single_bit [of l 3]
    and_single_bit [of l 4] and_single_bit [of l 5]
  by (auto simp: fd_defs)

text \<open>The readiness update in closed form.\<close>

lemma fold_step:
  assumes "l AND m = 0 \<or> l AND m = m"
  shows "(if l AND m \<noteq> 0 then g\<lparr>events := events g OR m\<rparr> else g) = g\<lparr>events := events g OR (l AND m)\<rparr>"
  using assms by auto

lemma fold_step_connect:
  assumes "l AND m = 0 \<or> l AND m = m"
  shows "(if l AND m \<noteq> 0 then g\<lparr>events := events g OR m, connect_error := c\<rparr> else g)
          = g\<lparr>events := events g OR (l AND m), connect_error := (if l AND m \<noteq> 0 then c else connect_error g)\<rparr>"
  using assms by auto

lemma socket_update_events_eq:
  "socket_update_events P f ere s =
    (let l = fst (WSAEnumNetworkEvents_result P (clock s) (socket f));
         c = snd (WSAEnumNetworkEvents_result P (clock s) (socket f));
         e = folded (events f) l;
         ce = (if l AND FD_CONNECT \<noteq> 0 then c else connect_error f)
     in if ere AND e AND FD_CONNECT \<noteq> 0
        then (e, f\<lparr>events := e AND NOT FD_CONNECT, connect_error := 0\<rparr>, (tick s)\<lparr>last_error := ce\<rparr>)
        else (e, f\<lparr>events := e, connect_error := ce\<rparr>, tick s))"
proof -
  obtain l c where lc: "WSAEnumNetworkEvents_result P (clock s) (socket f) = (l, c)"
    by (cases "WSAEnumNetworkEvents_result P (clock s) (socket f)")
  show ?thesis
    unfolding socket_update_events_def WSAEnumNetworkEvents_def folded_def Let_def lc
      prod.case fst_conv snd_conv
      fold_step [OF fd_bit_cases(1)] fold_step [OF fd_bit_cases(2)] fold_step [OF fd_bit_cases(3)]
      fold_step_connect [OF fd_bit_cases(4)] fold_step [OF fd_bit_cases(5)]
    by (simp add: WSASetLastError_def or.assoc)
qed

lemma folded_eq: "folded x l = x OR (l AND 59)"
proof -
  have "(59::int) = 1 OR 2 OR 8 OR 16 OR 32" by simp
  then show ?thesis
    by (simp only: folded_def fd_defs bit.conj_disj_distrib or.assoc)
qed

lemma folded_connect: "folded x l AND FD_CONNECT = (x AND FD_CONNECT) OR (l AND FD_CONNECT)"
  by (simp add: folded_eq FD_CONNECT_def bit.conj_disj_distrib2 and.assoc)

lemma folded_read: "folded x l AND FD_READ = (x AND FD_READ) OR (l AND FD_READ)"
  by (simp add: folded_eq FD_READ_def bit.conj_disj_distrib2 and.assoc)

lemma folded_write: "folded x l AND FD_WRITE = (x AND FD_WRITE) OR (l AND FD_WRITE)"
  by (simp add: folded_eq FD_WRITE_def bit.conj_disj_distrib2 and.assoc)

lemma clear_connect: "(x AND NOT FD_CONNECT) AND FD_CONNECT = 0"
  by (simp add: and.assoc)

lemma FD_no_connect: "FD_READ AND FD_CONNECT = 0" "FD_WRITE AND FD_CONNECT = 0"
  by (simp_all add: fd_defs)

lemma no_report:
  assumes "ev AND FD_CONNECT = 0"
  shows "ev AND x AND FD_CONNECT = 0"
proof -
  have "ev AND x AND FD_CONNECT = (ev AND FD_CONNECT) AND x"
    by (simp add: and.commute and.left_commute)
  then show ?thesis using assms by simp
qed

text \<open>What a readiness update leaves alone.\<close>

lemma socket_update_events_frame:
  assumes "socket_update_events P f ere s = (e, f1, s1)"
  shows "flags f1 = flags f" "socket f1 = socket f" "event_handle f1 = event_handle f"
    "ref f1 = ref f" "sent s1 = sent s" "logged s1 = logged s" "heap s1 = heap s"
    "vfs_table s1 = vfs_table s" "clock s1 = Suc (clock s)"
    "native_sockets s1 = native_sockets s" "event_objects s1 = event_objects s"
    "event_select s1 = event_select s" "socket_inited s1 = socket_inited s"
    "e = folded (events f) (fst (WSAEnumNetworkEvents_result P (clock s) (socket f)))"
  using assms by (auto simp: socket_update_events_eq Let_def split: if_splits)

lemma socket_update_events_plain:
  assumes "ev AND FD_CONNECT = 0" and "socket_update_events P f ev s = (e, f1, s1)"
  shows "events f1 = e" "s1 = tick s"
  using assms(2) no_report [OF assms(1)]
  by (auto simp: socket_update_events_eq Let_def)



lemma or_and_nonzero: "(a::int) AND m \<noteq> 0 \<Longrightarrow> (a OR x) AND m \<noteq> 0"
  by (simp add: bit.conj_disj_distrib2 or_eq_0_iff)



lemma win32_af_None:
  "win32_af domain = None \<longleftrightarrow>
     domain \<notin> {LINUX_AF_UNSPEC, LINUX_AF_UNIX, LINUX_AF_INET, LINUX_AF_INET6}"
  by (simp add: win32_af_def)

lemma win32_type_None:
  "win32_type ty = None \<longleftrightarrow>
     ty \<notin> {LINUX_SOCK_DGRAM, LINUX_SOCK_STREAM, LINUX_SOCK_RAW, LINUX_SOCK_RDM, LINUX_SOCK_SEQPACKET}"
  by (simp add: win32_type_def)

lemma socket_ensure_initialized_ok:
  assumes "socket_inited s \<or> WSAStartup_result P (clock s) = 0"
  shows "\<exists>s1. socket_ensure_initialized P (log_info fmt args s) = (True, s1)
     \<and> native_sockets s1 = native_sockets s \<and> event_objects s1 = event_objects s
     \<and> event_select s1 = event_select s"
  using assms by (auto simp: socket_ensure_initialized_def log_info_def Let_def)

subsection \<open>Auxiliary facts about sending\<close>

lemma socket_wait_event_ready:
  assumes "ev AND FD_CONNECT = 0" and "events f AND ev \<noteq> 0"
  shows "\<exists>f1. socket_wait_event (Suc k) P f ev flgs s = Some (0, f1, tick s)
           \<and> events f1 AND ev \<noteq> 0 \<and> flags f1 = flags f \<and> socket f1 = socket f"
proof -
  obtain e g t where u: "socket_update_events P f ev s = (e, g, t)"
    by (cases "socket_update_events P f ev s") auto
  note pl = socket_update_events_plain [OF assms(1) u]
  note fr = socket_update_events_frame [OF u]
  have "e = events f OR (fst (WSAEnumNetworkEvents_result P (clock s) (socket f)) AND 59)"
    using fr(14) by (simp add: folded_eq)
  then have "e AND ev \<noteq> 0" using assms(2) by (simp add: or_and_nonzero)
  then show ?thesis using pl fr by (simp add: u)
qed

text \<open>One round of the loop of \<^verbatim>\<open>socket_sendmsg\<close>, given what the wait has returned.\<close>

lemma socket_sendmsg_loop_step:
  assumes "socket_wait_event (Suc k) P f FD_WRITE flgs s = Some (r0, g, t)"
  shows "socket_sendmsg_loop (Suc k) P f m flgs s =
     (if r0 \<noteq> 0 then Some (r0, g, t)
      else case WSASendMsg_result P (clock t) (socket g) m of
          Native_ok v \<Rightarrow> Some (v, g, (tick t)\<lparr>sent := sent t @ [v]\<rparr>)
        | Native_error e \<Rightarrow>
            if e \<noteq> WSAEWOULDBLOCK
            then Some (fst (translate_socket_error e
                         (log_warning ''WSASendMsg() failed, error code: %d'' [e] (WSASetLastError e (tick t)))),
                       g,
                       snd (translate_socket_error e
                         (log_warning ''WSASendMsg() failed, error code: %d'' [e] (WSASetLastError e (tick t)))))
            else socket_sendmsg_loop k P (g\<lparr>flags := flags g AND NOT FD_WRITE\<rparr>) m flgs
                   (WSASetLastError e (tick t)))"
  unfolding socket_sendmsg_loop.simps assms
  by (simp add: WSASendMsg_def WSAGetLastError_def WSASetLastError_def log_warning_def Let_def split_beta
      split: native_result.splits)







lemma sendmmsg_loop_step:
  assumes "i < length msgs"
    and "socket_sendmsg fuel P f (msg_hdr (msgs ! i)) flgs s = Some (n, f1, s1)"
  shows "sendmmsg_loop fuel P f flgs i msgs s =
     (if i = 0 \<and> n < 0 then Some (n, msgs, f1, s1)
      else if i = 0 \<and> n = 0 then Some (- EWOULDBLOCK, msgs, f1, s1)
      else if n \<le> 0 then Some (int i, msgs, f1, s1)
      else if n < iov_total (msg_hdr (msgs ! i))
        then Some (int i + 1, msgs[i := (msgs ! i)\<lparr>msg_len := nat n\<rparr>], f1, s1)
      else sendmmsg_loop fuel P f1 flgs (Suc i) (msgs[i := (msgs ! i)\<lparr>msg_len := nat n\<rparr>]) s1)"
  using assms by (subst sendmmsg_loop.simps) (simp add: Let_def)




text \<open>Validation only logs, and its verdict does not depend on the state.\<close>

lemma log_only_refl: "\<exists>l. s = s\<lparr>logged := l\<rparr>"
  by (rule exI [of _ "logged s"]) simp

lemma mm_check_read_iov_log:
  "\<exists>l. snd (mm_check_read_iov P i vs s) = s\<lparr>logged := l\<rparr>"
proof (induction vs arbitrary: i s)
  case Nil
  have "s = s\<lparr>logged := logged s\<rparr>" by simp
  then show ?case by (metis mm_check_read_iov.simps(1) snd_conv)
next
  case (Cons v vs)
  let ?s = "log_info ''iov %d: [%p, %p)'' [int i, int (iov_base v), int (iov_base v + iov_len v)] s"
  from Cons [of "Suc i" ?s] obtain l where
    "snd (mm_check_read_iov P (Suc i) vs ?s) = ?s\<lparr>logged := l\<rparr>" by blast
  then show ?case by (auto simp: Let_def log_info_def)
qed

lemma mm_check_read_iov_verdict:
  "fst (mm_check_read_iov P i vs s) = fst (mm_check_read_iov P j vs t)"
  by (induction vs arbitrary: i j s t) (auto simp: Let_def)

lemma mm_check_read_msghdr_log:
  "\<exists>l. snd (mm_check_read_msghdr P a m s) = s\<lparr>logged := l\<rparr>"
  using mm_check_read_iov_log [of P 0 "msg_iov m" s]
  by (simp add: mm_check_read_msghdr_def log_only_refl)

lemma mm_check_read_msghdr_verdict:
  "fst (mm_check_read_msghdr P a m s) = fst (mm_check_read_msghdr P a m t)"
  using mm_check_read_iov_verdict [of P 0 "msg_iov m" s 0 t]
  by (simp add: mm_check_read_msghdr_def)

lemma sendmmsg_check_log:
  "\<exists>l. snd (sendmmsg_check P msgvec i ms s) = s\<lparr>logged := l\<rparr>"
proof (induction ms arbitrary: i s)
  case Nil
  have "s = s\<lparr>logged := logged s\<rparr>" by simp
  then show ?case by (metis sendmmsg_check.simps(1) snd_conv)
next
  case (Cons m ms)
  let ?s = "log_info ''msgvec %d:'' [int i] s"
  obtain v t where c: "mm_check_read_msghdr P (msgvec + i * sizeof_mmsghdr P) (msg_hdr m) ?s = (v, t)"
    by (cases "mm_check_read_msghdr P (msgvec + i * sizeof_mmsghdr P) (msg_hdr m) ?s") auto
  from mm_check_read_msghdr_log [of P "msgvec + i * sizeof_mmsghdr P" "msg_hdr m" ?s] c
  obtain l where t: "t = s\<lparr>logged := l\<rparr>" by (auto simp: log_info_def)
  from Cons [of "Suc i" t] obtain l' where
    "snd (sendmmsg_check P msgvec (Suc i) ms t) = s\<lparr>logged := l'\<rparr>" by (auto simp: t)
  then show ?case using t c by (cases v) auto
qed

lemma sendmmsg_check_verdict:
  "fst (sendmmsg_check P msgvec i ms s) \<longleftrightarrow>
     (\<forall>j<length ms. fst (mm_check_read_msghdr P (msgvec + (i + j) * sizeof_mmsghdr P) (msg_hdr (ms ! j)) t))"
proof (induction ms arbitrary: i s)
  case Nil
  then show ?case by simp
next
  case (Cons m ms)
  let ?s = "log_info ''msgvec %d:'' [int i] s"
  obtain v u where c: "mm_check_read_msghdr P (msgvec + i * sizeof_mmsghdr P) (msg_hdr m) ?s = (v, u)"
    by (cases "mm_check_read_msghdr P (msgvec + i * sizeof_mmsghdr P) (msg_hdr m) ?s") auto
  have "fst (mm_check_read_msghdr P (msgvec + i * sizeof_mmsghdr P) (msg_hdr m) ?s) = v"
    using c by simp
  then have v: "v = fst (mm_check_read_msghdr P (msgvec + i * sizeof_mmsghdr P) (msg_hdr m) t)"
    using mm_check_read_msghdr_verdict [of P "msgvec + i * sizeof_mmsghdr P" "msg_hdr m" ?s t] by simp
  have all: "(\<forall>j<Suc (length ms). Q j) \<longleftrightarrow> Q 0 \<and> (\<forall>j<length ms. Q (Suc j))" for Q
    by (auto simp: less_Suc_eq_0_disj)
  show ?case
  proof (cases v)
    case True
    then show ?thesis using c v Cons [of "Suc i" u] by (simp add: all)
  next
    case False
    then show ?thesis using c v by (auto simp: all)
  qed
qed

lemma get_sockfd_logged [simp]: "get_sockfd (s\<lparr>logged := l\<rparr>) fd = get_sockfd s fd"
  by (auto simp: get_sockfd_def vfs_get_def split: option.splits)



lemma sys_sendmmsg_valid:
  assumes "mm_check_write P msgvec (sizeof_mmsghdr P * length msgs)"
    and "\<forall>i<length msgs. fst (mm_check_read_msghdr P (msgvec + i * sizeof_mmsghdr P) (msg_hdr (msgs ! i)) s)"
  shows "\<exists>l. sys_sendmmsg fuel P sockfd msgvec msgs flgs s =
     (case get_sockfd s sockfd of
        Inl r \<Rightarrow> Some (r, msgs, s\<lparr>logged := l\<rparr>)
      | Inr (p, f) \<Rightarrow>
          (case sendmmsg_loop fuel P f flgs 0 msgs (s\<lparr>logged := l\<rparr>) of
             None \<Rightarrow> None
           | Some (r, msgs1, f1, s2) \<Rightarrow> Some (r, msgs1, store_socket_file p f1 s2)))"
proof -
  let ?s = "log_info ''sendmmsg(sockfd=%d, msgvec=%p, vlen=%d, flags=%d)''
               [sockfd, int msgvec, int (length msgs), flgs] s"
  obtain v t where c: "sendmmsg_check P msgvec 0 msgs ?s = (v, t)"
    by (cases "sendmmsg_check P msgvec 0 msgs ?s") auto
  have "v"
    using sendmmsg_check_verdict [of P msgvec 0 msgs ?s s] c assms(2) by auto
  moreover obtain l where "t = s\<lparr>logged := l\<rparr>"
    using sendmmsg_check_log [of P msgvec 0 msgs ?s] c by (auto simp: log_info_def)
  ultimately show ?thesis using assms(1) c by (auto simp: sys_sendmmsg_def Let_def)
qed



lemma socket_sendmsg_ready:
  assumes ready: "events f AND FD_WRITE \<noteq> 0"
  shows "\<exists>g t. socket_wait_event (Suc k) P f FD_WRITE flgs
            (if flgs AND NOT LINUX_MSG_DONTWAIT \<noteq> 0
             then log_error ''socket_sendmsg(): flags (0x%x) contains unsupported bits.'' [flgs] s else s)
              = Some (0, g, t)
          \<and> events g AND FD_WRITE \<noteq> 0 \<and> socket g = socket f
          \<and> sent t = sent s \<and> heap t = heap s \<and> vfs_table t = vfs_table s"
proof -
  let ?s = "if flgs AND NOT LINUX_MSG_DONTWAIT \<noteq> 0
             then log_error ''socket_sendmsg(): flags (0x%x) contains unsupported bits.'' [flgs] s else s"
  from socket_wait_event_ready [OF FD_no_connect(2) ready, of k P flgs ?s]
  obtain g where g: "socket_wait_event (Suc k) P f FD_WRITE flgs ?s = Some (0, g, tick ?s)"
    "events g AND FD_WRITE \<noteq> 0" "socket g = socket f" by blast
  have "sent (tick ?s) = sent s" "heap (tick ?s) = heap s" "vfs_table (tick ?s) = vfs_table s"
    by (simp_all add: log_error_def)
  then show ?thesis using g by blast
qed

lemma socket_sendmsg_ok:
  assumes ready: "events f AND FD_WRITE \<noteq> 0"
    and ans: "platform_answers P msg (Native_ok n)"
  shows "\<exists>g t. socket_sendmsg (Suc k) P f msg flgs s = Some (n, g, t)
          \<and> events g AND FD_WRITE \<noteq> 0
          \<and> sent t = sent s @ [n] \<and> heap t = heap s \<and> vfs_table t = vfs_table s"
proof -
  from socket_sendmsg_ready [OF ready, of k P flgs s] obtain g t where
    w: "socket_wait_event (Suc k) P f FD_WRITE flgs
            (if flgs AND NOT LINUX_MSG_DONTWAIT \<noteq> 0
             then log_error ''socket_sendmsg(): flags (0x%x) contains unsupported bits.'' [flgs] s else s)
              = Some (0, g, t)"
    and g: "events g AND FD_WRITE \<noteq> 0" "sent t = sent s" "heap t = heap s" "vfs_table t = vfs_table s"
    by blast
  have a: "WSASendMsg_result P (clock t) (socket g) (wsamsg_of msg) = Native_ok n"
    using ans by (simp add: platform_answers_def)
  show ?thesis
    unfolding socket_sendmsg_def socket_sendmsg_loop_step [OF w]
    using g by (simp add: a)
qed






lemma example_sock:
  "get_sockfd ready_state 3 = Inr (1, example_socket\<lparr>events := FD_WRITE\<rparr>)"
  by (simp add: get_sockfd_def vfs_get_def ready_state_def example_state_def)



lemma socket_wait_event_would_block:
  assumes "ev AND FD_CONNECT = 0" and "events f AND ev = 0" and "flags f AND O_NONBLOCK \<noteq> 0"
    and "fst (WSAEnumNetworkEvents_result P (clock s) (socket f)) AND ev = 0"
  shows "\<exists>g. socket_wait_event (Suc k) P f ev flgs s = Some (- EWOULDBLOCK, g, tick s)"
proof -
  obtain e g t where u: "socket_update_events P f ev s = (e, g, t)"
    by (cases "socket_update_events P f ev s") auto
  note pl = socket_update_events_plain [OF assms(1) u]
  note fr = socket_update_events_frame [OF u]
  let ?l = "fst (WSAEnumNetworkEvents_result P (clock s) (socket f))"
  have "e = events f OR (?l AND 59)"
    using fr(14) by (simp add: folded_eq)
  moreover have "(?l AND 59) AND ev = (?l AND ev) AND 59"
    by (simp add: and.commute and.left_commute)
  ultimately have "e AND ev = 0"
    using assms(2,4) by (simp add: bit.conj_disj_distrib2)
  then show ?thesis using pl fr assms(3) by (simp add: u)
qed

lemma socket_sendmsg_would_block:
  assumes "events f AND FD_WRITE = 0" and "flags f AND O_NONBLOCK \<noteq> 0"
    and "\<forall>c. fst (WSAEnumNetworkEvents_result P c (socket f)) AND FD_WRITE = 0"
  shows "\<exists>g t. socket_sendmsg (Suc k) P f msg flgs s = Some (- EWOULDBLOCK, g, t) \<and> sent t = sent s"
proof -
  let ?s = "if flgs AND NOT LINUX_MSG_DONTWAIT \<noteq> 0
             then log_error ''socket_sendmsg(): flags (0x%x) contains unsupported bits.'' [flgs] s else s"
  have q: "fst (WSAEnumNetworkEvents_result P (clock ?s) (socket f)) AND FD_WRITE = 0"
    using assms(3) by blast
  from socket_wait_event_would_block [OF FD_no_connect(2) assms(1,2) q, of k flgs]
  obtain g where w: "socket_wait_event (Suc k) P f FD_WRITE flgs ?s = Some (- EWOULDBLOCK, g, tick ?s)"
    by blast
  have "sent (tick ?s) = sent s" by (simp add: log_error_def)
  moreover have "- EWOULDBLOCK \<noteq> 0" by (simp add: EWOULDBLOCK_def)
  ultimately show ?thesis
    unfolding socket_sendmsg_def socket_sendmsg_loop_step [OF w] by simp
qed

lemma example_writable:
  "mm_check_write example_platform 1000 (sizeof_mmsghdr example_platform * length msgs)"
  by (simp add: example_platform_def)

lemma sent_ready_state: "sent ready_state = []"
  by (simp add: ready_state_def example_state_def)

subsection \<open>The error translator\<close>

lemma error_mapping_table_distinct: "distinct (map fst error_mapping_table)"
  by (simp add: error_mapping_table_def wsa_defs)

text \<open>
  C7. The error translator is a total, deterministic function of the host code: a
  code of the mapping table is translated to the guest code the table gives for it and
  nothing is logged; any other code is translated to \<open>- EIO\<close>, and one error line that
  carries the unmapped code is logged.
\<close>

theorem translate_socket_error_table:
  "translate_socket_error e s =
     (case map_of error_mapping_table e of
        Some g \<Rightarrow> (g, s)
      | None \<Rightarrow> (- EIO, s\<lparr>logged := logged s @ [(Log_error, ''Unhandled WSA error code: %d'', [e])]\<rparr>))"
  by (simp add: translate_socket_error_def error_mapping_table_def log_error_def wsa_defs)

subsection \<open>The readiness engine\<close>

text \<open>
  C6. A connect completion is surfaced at most once. When \<^verbatim>\<open>socket_update_events\<close> is
  asked to report the connect class and the connect-completed bit is set in the mask
  it returns, the captured connect error (the one of the notification just folded in,
  or else the stored one) becomes the thread's last error, and both the bit and the
  stored error are cleared in the socket file. A second such query, before which the
  platform has notified no further connect completion, returns a mask without the
  connect-completed bit and leaves the last error alone.
\<close>

theorem connect_completion_surfaced_once:
  assumes rep: "error_report_events AND FD_CONNECT = FD_CONNECT"
    and first: "socket_update_events P f error_report_events s = (e1, f1, s1)"
    and completed: "e1 AND FD_CONNECT \<noteq> 0"
    and quiet: "fst (WSAEnumNetworkEvents_result P (clock s1) (socket f1)) AND FD_CONNECT = 0"
    and second: "socket_update_events P f1 error_report_events s1 = (e2, f2, s2)"
  shows "last_error s1 =
           (if fst (WSAEnumNetworkEvents_result P (clock s) (socket f)) AND FD_CONNECT \<noteq> 0
            then snd (WSAEnumNetworkEvents_result P (clock s) (socket f))
            else connect_error f)
         \<and> events f1 = e1 AND NOT FD_CONNECT \<and> connect_error f1 = 0
         \<and> e2 AND FD_CONNECT = 0 \<and> last_error s2 = last_error s1
         \<and> events f2 AND FD_CONNECT = 0 \<and> connect_error f2 = 0"
proof -
  let ?l = "fst (WSAEnumNetworkEvents_result P (clock s) (socket f))"
  have e1: "e1 = folded (events f) ?l"
    using first by (simp add: socket_update_events_eq Let_def split: if_splits)
  have "error_report_events AND e1 AND FD_CONNECT = e1 AND FD_CONNECT"
    using rep by (metis and.assoc and.commute)
  with completed have taken: "error_report_events AND folded (events f) ?l AND FD_CONNECT \<noteq> 0"
    by (simp add: e1)
  have f1: "f1 = f\<lparr>events := e1 AND NOT FD_CONNECT, connect_error := 0\<rparr>"
    and s1: "last_error s1 = (if ?l AND FD_CONNECT \<noteq> 0
            then snd (WSAEnumNetworkEvents_result P (clock s) (socket f)) else connect_error f)"
    using first taken by (auto simp: socket_update_events_eq Let_def e1)
  let ?l2 = "fst (WSAEnumNetworkEvents_result P (clock s1) (socket f1))"
  have e2: "e2 = folded (events f1) ?l2"
    using second by (simp add: socket_update_events_eq Let_def split: if_splits)
  have e2c: "e2 AND FD_CONNECT = 0"
    using quiet by (simp add: e2 folded_connect f1 clear_connect)
  then have nottaken: "\<not> error_report_events AND folded (events f1) ?l2 AND FD_CONNECT \<noteq> 0"
    by (simp add: e2)
  have "f2 = f1\<lparr>events := e2, connect_error := connect_error f1\<rparr>" and "last_error s2 = last_error s1"
    using second nottaken quiet by (auto simp: socket_update_events_eq Let_def e2)
  then show ?thesis using f1 s1 e2c by simp
qed

theorem connect_completion_surfaced_once_witness:
  "(let P = example_platform\<lparr>WSAEnumNetworkEvents_result :=
              (\<lambda>c sock. if c = 0 then (FD_CONNECT, WSAECONNREFUSED) else (0, 0))\<rparr>;
        (e1, f1, s1) = socket_update_events P example_socket FD_CONNECT example_state;
        (e2, f2, s2) = socket_update_events P f1 FD_CONNECT s1
    in e1 AND FD_CONNECT = FD_CONNECT \<and> last_error s1 = WSAECONNREFUSED
       \<and> events f1 AND FD_CONNECT = 0 \<and> connect_error f1 = 0
       \<and> e2 AND FD_CONNECT = 0 \<and> last_error s2 = WSAECONNREFUSED)"
proof -
  define P where "P = example_platform\<lparr>WSAEnumNetworkEvents_result :=
              (\<lambda>c sock. if c = 0 then (FD_CONNECT, WSAECONNREFUSED) else (0, 0))\<rparr>"
  obtain e1 f1 s1 where 1: "socket_update_events P example_socket FD_CONNECT example_state = (e1, f1, s1)"
    by (cases "socket_update_events P example_socket FD_CONNECT example_state") auto
  obtain e2 f2 s2 where 2: "socket_update_events P f1 FD_CONNECT s1 = (e2, f2, s2)"
    by (cases "socket_update_events P f1 FD_CONNECT s1") auto
  have e1: "e1 = FD_CONNECT" and c1: "clock s1 = 1"
    using 1 by (auto simp: socket_update_events_def WSAEnumNetworkEvents_def P_def example_platform_def
        example_socket_def example_state_def fd_defs Let_def WSASetLastError_def tick_def)
  have q: "fst (WSAEnumNetworkEvents_result P (clock s1) (socket f1)) AND FD_CONNECT = 0"
    by (simp add: c1 P_def)
  have l: "fst (WSAEnumNetworkEvents_result P (clock example_state) (socket example_socket)) = FD_CONNECT"
    "snd (WSAEnumNetworkEvents_result P (clock example_state) (socket example_socket)) = WSAECONNREFUSED"
    by (simp_all add: P_def example_state_def)
  have r: "FD_CONNECT AND FD_CONNECT = FD_CONNECT" and nz: "e1 AND FD_CONNECT \<noteq> 0"
    and nz': "FD_CONNECT \<noteq> 0"
    by (simp_all add: e1 FD_CONNECT_def)
  have "e1 AND FD_CONNECT = FD_CONNECT \<and> last_error s1 = WSAECONNREFUSED
       \<and> events f1 AND FD_CONNECT = 0 \<and> connect_error f1 = 0
       \<and> e2 AND FD_CONNECT = 0 \<and> last_error s2 = WSAECONNREFUSED"
    using connect_completion_surfaced_once [OF r 1 nz q 2]
    by (simp add: l e1 nz' clear_connect)
  then show ?thesis
    unfolding Let_def P_def [symmetric] 1 2 prod.case .
qed

subsection \<open>Receiving\<close>



subsection \<open>Sending\<close>

text \<open>
  C4. On a would-block failure of the native transfer, the send path is to clear the
  write-ready bit of \<open>events\<close> and wait again. \<^verbatim>\<open>socket_sendto\<close> does; \<^verbatim>\<open>socket_sendmsg\<close>
  clears the bit \<^verbatim>\<open>FD_WRITE\<close> in \<open>flags\<close> instead and leaves \<open>events\<close> as it was. On a
  non-blocking socket whose write-ready bit is set, against a platform whose first
  transfer would block and whose later ones send 5 bytes: \<^verbatim>\<open>socket_sendmsg\<close> finds the
  bit still set, transfers again at once and returns 5 with the bit set, where
  \<^verbatim>\<open>socket_sendto\<close> has cleared the bit and returns \<open>- EWOULDBLOCK\<close> from the wait.
\<close>

theorem socket_sendmsg_keeps_write_ready:
  "map_option (\<lambda>(r, f, s). (r, events f, flags f, sent s))
     (socket_sendmsg (Suc (Suc 0))
        (example_platform\<lparr>WSASendMsg_result :=
           (\<lambda>c sock m. if c = 1 then Native_error WSAEWOULDBLOCK else Native_ok 5)\<rparr>)
        (example_socket\<lparr>flags := O_NONBLOCK, events := FD_WRITE\<rparr>)
        (msg_hdr (example_msg 100 5)) 0 example_state)
     = Some (5, FD_WRITE, O_NONBLOCK, [5])
   \<and> map_option (\<lambda>(r, f, s). (r, events f, flags f))
     (socket_sendto (Suc (Suc 0))
        (example_platform\<lparr>sendto_result :=
           (\<lambda>c sock n. if c = 1 then Native_error WSAEWOULDBLOCK else Native_ok 5)\<rparr>)
        (example_socket\<lparr>flags := O_NONBLOCK, events := FD_WRITE\<rparr>)
        100 5 0 example_state)
     = Some (- EWOULDBLOCK, 0, O_NONBLOCK)"
  by code_simp

text \<open>Against a platform on which sending the message always would block,
  \<^verbatim>\<open>socket_sendmsg\<close> on a socket whose write-ready bit is set does not return within any
  number of rounds, on a non-blocking socket too: the bit is never cleared, so the wait
  never reports the would-block.\<close>

lemma socket_sendmsg_loop_spins:
  assumes wb: "\<forall>c sock. WSASendMsg_result P c sock m = Native_error WSAEWOULDBLOCK"
  shows "events f AND FD_WRITE \<noteq> 0 \<Longrightarrow> socket_sendmsg_loop k P f m flgs s = None"
proof (induction k arbitrary: f s)
  case 0
  then show ?case by simp
next
  case (Suc k)
  from socket_wait_event_ready [OF FD_no_connect(2) Suc.prems, of k P flgs s]
  obtain g where w: "socket_wait_event (Suc k) P f FD_WRITE flgs s = Some (0, g, tick s)"
    and g: "events g AND FD_WRITE \<noteq> 0"
    by blast
  have "events (g\<lparr>flags := flags g AND NOT FD_WRITE\<rparr>) AND FD_WRITE \<noteq> 0" using g by simp
  from Suc.IH [OF this] show ?case
    unfolding socket_sendmsg_loop_step [OF w] by (simp add: wb)
qed

subsection \<open>The system call \<^verbatim>\<open>socket\<close>\<close>

text \<open>
  C3. The event selection of a socket that \<^verbatim>\<open>sys_socket\<close> has created. The mask that
  \<^verbatim>\<open>init_socket_event\<close> passes to \<^verbatim>\<open>WSAEventSelect\<close> holds the classes readable, writable,
  acceptable and connect-completed; peer-closed (\<^verbatim>\<open>FD_CLOSE\<close>), which
  \<^verbatim>\<open>socket_update_events\<close> folds in, is not among them. Here for
  \<^verbatim>\<open>socket(AF_INET, SOCK_STREAM, 0)\<close>, which returns descriptor 3.
\<close>

theorem sys_socket_event_mask_without_close:
  "fst (sys_socket example_platform LINUX_AF_INET LINUX_SOCK_STREAM 0 boot_state) = Returns 3
   \<and> event_select (snd (sys_socket example_platform LINUX_AF_INET LINUX_SOCK_STREAM 0 boot_state)) 7
       = Some (9, FD_READ OR FD_WRITE OR FD_ACCEPT OR FD_CONNECT)
   \<and> (FD_READ OR FD_WRITE OR FD_ACCEPT OR FD_CONNECT) AND FD_CLOSE = 0"
  by code_simp

text \<open>The same for every socket and platform: whenever \<^verbatim>\<open>init_socket_event\<close> succeeds, the
  selection it leaves holds the four classes, and \<^verbatim>\<open>FD_CLOSE\<close> is not one of them.\<close>

lemma init_socket_event_mask:
  assumes "init_socket_event P sock s = (handle, s1)" and "handle \<noteq> 0"
  shows "event_select s1 sock = Some (handle, FD_READ OR FD_WRITE OR FD_ACCEPT OR FD_CONNECT)"
    and "(FD_READ OR FD_WRITE OR FD_ACCEPT OR FD_CONNECT) AND FD_CLOSE = 0"
  using assms
  by (auto simp: init_socket_event_def CreateEventW_def WSAEventSelect_def Let_def fd_defs
      split: if_splits native_result.splits prod.splits)

text \<open>
  C8, as the claim states it, fails in two ways: the domain is checked before the
  protocol, so an unsupported domain with a non-zero protocol yields
  \<open>- EAFNOSUPPORT\<close>; and when \<^verbatim>\<open>WSAStartup\<close> fails the call does not return at all.
\<close>

theorem sys_socket_domain_checked_first:
  "fst (sys_socket example_platform 99 LINUX_SOCK_STREAM 6 boot_state) = Returns (- EAFNOSUPPORT)
   \<and> - EAFNOSUPPORT \<noteq> - EPROTONOSUPPORT
   \<and> fst (sys_socket (example_platform\<lparr>WSAStartup_result := (\<lambda>c. 10091)\<rparr>) 99 LINUX_SOCK_STREAM 0 boot_state)
       = Exit_process 1"
  by code_simp

text \<open>
  C8, amended. When the networking subsystem is initialised or \<^verbatim>\<open>WSAStartup\<close> succeeds:
  an unsupported domain returns \<open>- EAFNOSUPPORT\<close>; a supported domain with an
  unsupported socket kind or with a non-zero protocol returns \<open>- EPROTONOSUPPORT\<close>; in
  each case no native socket and no event object is created.
\<close>

theorem sys_socket_rejects_unsupported:
  assumes init: "socket_inited s \<or> WSAStartup_result P (clock s) = 0"
    and call: "sys_socket P domain ty protocol s = (r, s1)"
  shows "(domain \<notin> {LINUX_AF_UNSPEC, LINUX_AF_UNIX, LINUX_AF_INET, LINUX_AF_INET6} \<longrightarrow>
            r = Returns (- EAFNOSUPPORT)
            \<and> native_sockets s1 = native_sockets s \<and> event_objects s1 = event_objects s
            \<and> event_select s1 = event_select s)
       \<and> (domain \<in> {LINUX_AF_UNSPEC, LINUX_AF_UNIX, LINUX_AF_INET, LINUX_AF_INET6} \<and>
          (ty AND LINUX_SOCK_TYPE_MASK \<notin>
              {LINUX_SOCK_DGRAM, LINUX_SOCK_STREAM, LINUX_SOCK_RAW, LINUX_SOCK_RDM, LINUX_SOCK_SEQPACKET}
           \<or> protocol \<noteq> 0) \<longrightarrow>
            r = Returns (- EPROTONOSUPPORT)
            \<and> native_sockets s1 = native_sockets s \<and> event_objects s1 = event_objects s
            \<and> event_select s1 = event_select s)"
proof -
  from socket_ensure_initialized_ok [OF init] obtain t where
    t: "socket_ensure_initialized P
          (log_info ''socket(domain=%d, type=%d, protocol=%d)'' [domain, ty, protocol] s) = (True, t)"
    "native_sockets t = native_sockets s" "event_objects t = event_objects s"
    "event_select t = event_select s"
    by blast
  show ?thesis
  proof (rule conjI; rule impI)
    assume "domain \<notin> {LINUX_AF_UNSPEC, LINUX_AF_UNIX, LINUX_AF_INET, LINUX_AF_INET6}"
    then have "win32_af domain = None" using win32_af_None [of domain] by blast
    then have "r = Returns (- EAFNOSUPPORT) \<and> s1 = t"
      using call by (simp add: sys_socket_def t(1))
    then show "r = Returns (- EAFNOSUPPORT)
            \<and> native_sockets s1 = native_sockets s \<and> event_objects s1 = event_objects s
            \<and> event_select s1 = event_select s"
      using t by simp
  next
    assume a: "domain \<in> {LINUX_AF_UNSPEC, LINUX_AF_UNIX, LINUX_AF_INET, LINUX_AF_INET6} \<and>
          (ty AND LINUX_SOCK_TYPE_MASK \<notin>
              {LINUX_SOCK_DGRAM, LINUX_SOCK_STREAM, LINUX_SOCK_RAW, LINUX_SOCK_RDM, LINUX_SOCK_SEQPACKET}
           \<or> protocol \<noteq> 0)"
    then obtain af where af: "win32_af domain = Some af"
      using win32_af_None [of domain] by (cases "win32_af domain") auto
    from a have "win32_type (ty AND LINUX_SOCK_TYPE_MASK) = None \<or> protocol \<noteq> 0"
      using win32_type_None [of "ty AND LINUX_SOCK_TYPE_MASK"] by blast
    then have "r = Returns (- EPROTONOSUPPORT) \<and>
       (s1 = t \<or> s1 = log_error ''protocol(%d) != 0'' [protocol] t)"
      using call by (auto simp: sys_socket_def t(1) af Let_def split: option.splits)
    then show "r = Returns (- EPROTONOSUPPORT)
            \<and> native_sockets s1 = native_sockets s \<and> event_objects s1 = event_objects s
            \<and> event_select s1 = event_select s"
      using t by (auto simp: log_error_def)
  qed
qed

theorem sys_socket_rejects_unsupported_witness:
  "fst (sys_socket example_platform 99 LINUX_SOCK_STREAM 0 boot_state) = Returns (- EAFNOSUPPORT)
   \<and> native_sockets (snd (sys_socket example_platform 99 LINUX_SOCK_STREAM 0 boot_state)) = []
   \<and> fst (sys_socket example_platform LINUX_AF_INET 7 0 boot_state) = Returns (- EPROTONOSUPPORT)
   \<and> fst (sys_socket example_platform LINUX_AF_INET LINUX_SOCK_STREAM 6 boot_state) = Returns (- EPROTONOSUPPORT)
   \<and> native_sockets (snd (sys_socket example_platform LINUX_AF_INET LINUX_SOCK_STREAM 6 boot_state)) = []"
proof -
  have init: "socket_inited boot_state \<or> WSAStartup_result example_platform (clock boot_state) = 0"
    by (simp add: example_platform_def)
  have n: "native_sockets boot_state = []" by (simp add: boot_state_def)
  have 1: "(99::int) \<notin> {LINUX_AF_UNSPEC, LINUX_AF_UNIX, LINUX_AF_INET, LINUX_AF_INET6}"
    by (simp add: af_defs)
  have 2: "LINUX_AF_INET \<in> {LINUX_AF_UNSPEC, LINUX_AF_UNIX, LINUX_AF_INET, LINUX_AF_INET6} \<and>
          (7 AND LINUX_SOCK_TYPE_MASK \<notin>
              {LINUX_SOCK_DGRAM, LINUX_SOCK_STREAM, LINUX_SOCK_RAW, LINUX_SOCK_RDM, LINUX_SOCK_SEQPACKET}
           \<or> (0::int) \<noteq> 0)"
    by (simp add: sock_defs)
  have 3: "LINUX_AF_INET \<in> {LINUX_AF_UNSPEC, LINUX_AF_UNIX, LINUX_AF_INET, LINUX_AF_INET6} \<and>
          (LINUX_SOCK_STREAM AND LINUX_SOCK_TYPE_MASK \<notin>
              {LINUX_SOCK_DGRAM, LINUX_SOCK_STREAM, LINUX_SOCK_RAW, LINUX_SOCK_RDM, LINUX_SOCK_SEQPACKET}
           \<or> (6::int) \<noteq> 0)"
    by simp
  show ?thesis
    using sys_socket_rejects_unsupported [OF init surjective_pairing, of 99 LINUX_SOCK_STREAM 0]
      sys_socket_rejects_unsupported [OF init surjective_pairing, of LINUX_AF_INET 7 0]
      sys_socket_rejects_unsupported [OF init surjective_pairing, of LINUX_AF_INET LINUX_SOCK_STREAM 6]
      1 2 3 n
    by simp
qed

subsection \<open>The system call \<^verbatim>\<open>connect\<close>\<close>

text \<open>
  C1. A blocking \<^verbatim>\<open>connect\<close> whose native call would block waits for the
  connect-completed class and then returns \<^verbatim>\<open>WSAGetLastError()\<close> as it is: the host's
  code, not its translation. Here the completion carries \<^verbatim>\<open>WSAECONNREFUSED\<close>: the call
  returns \<open>10061\<close>, where the translator gives \<open>- ECONNREFUSED\<close>, that is \<open>- 111\<close>.
\<close>

theorem sys_connect_blocking_returns_host_code:
  "map_option fst
     (sys_connect (Suc 0)
        (example_platform\<lparr>connect_result := (\<lambda>c sock. Native_error WSAEWOULDBLOCK),
           WSAEnumNetworkEvents_result := (\<lambda>c sock. (FD_CONNECT, WSAECONNREFUSED))\<rparr>)
        3 100 16 example_state) = Some WSAECONNREFUSED
   \<and> fst (translate_socket_error WSAECONNREFUSED example_state) = - ECONNREFUSED
   \<and> WSAECONNREFUSED = 10061 \<and> - ECONNREFUSED = - 111"
  by code_simp

subsection \<open>The system call \<^verbatim>\<open>sendmmsg\<close>\<close>






text \<open>
  C10. A first message that is sent successfully with zero bytes makes \<^verbatim>\<open>sendmmsg\<close>
  return \<open>- EWOULDBLOCK\<close>, not the count 1, although the transfer has taken place (it is
  the one transfer recorded). That is also what the call returns, with the vector
  unchanged as well, when the first message would block on a non-blocking socket that
  is not write-ready.
\<close>

theorem sys_sendmmsg_zero_byte_first_message:
  assumes writable: "mm_check_write P msgvec (sizeof_mmsghdr P * length msgs)"
    and valid: "\<forall>i<length msgs.
        fst (mm_check_read_msghdr P (msgvec + i * sizeof_mmsghdr P) (msg_hdr (msgs ! i)) s)"
    and sock: "get_sockfd s sockfd = Inr (p, f)"
    and fuel: "0 < fuel"
    and nonempty: "msgs \<noteq> []"
  shows "(events f AND FD_WRITE \<noteq> 0 \<and> platform_answers P (msg_hdr (msgs ! 0)) (Native_ok 0) \<longrightarrow>
           (\<exists>s1. sys_sendmmsg fuel P sockfd msgvec msgs flgs s = Some (- EWOULDBLOCK, msgs, s1)
                 \<and> sent s1 = sent s @ [0]))
       \<and> (events f AND FD_WRITE = 0 \<and> flags f AND O_NONBLOCK \<noteq> 0
          \<and> (\<forall>c. fst (WSAEnumNetworkEvents_result P c (socket f)) AND FD_WRITE = 0) \<longrightarrow>
           (\<exists>s1. sys_sendmmsg fuel P sockfd msgvec msgs flgs s = Some (- EWOULDBLOCK, msgs, s1)
                 \<and> sent s1 = sent s))"
proof -
  from sys_sendmmsg_valid [OF writable valid, of fuel sockfd flgs] obtain l where
    eq: "sys_sendmmsg fuel P sockfd msgvec msgs flgs s =
          (case sendmmsg_loop fuel P f flgs 0 msgs (s\<lparr>logged := l\<rparr>) of
             None \<Rightarrow> None
           | Some (r, msgs1, f1, s2) \<Rightarrow> Some (r, msgs1, store_socket_file p f1 s2))"
    by (auto simp: sock)
  obtain fu where fu: "fuel = Suc fu" using fuel by (cases fuel) auto
  have i: "0 < length msgs" using nonempty by simp
  show ?thesis
  proof (rule conjI; rule impI)
    assume "events f AND FD_WRITE \<noteq> 0 \<and> platform_answers P (msg_hdr (msgs ! 0)) (Native_ok 0)"
    then have a: "events f AND FD_WRITE \<noteq> 0" "platform_answers P (msg_hdr (msgs ! 0)) (Native_ok 0)"
      by simp_all
    from socket_sendmsg_ok [OF a, of fu flgs "s\<lparr>logged := l\<rparr>"] obtain g t where
      sm: "socket_sendmsg fuel P f (msg_hdr (msgs ! 0)) flgs (s\<lparr>logged := l\<rparr>) = Some (0, g, t)"
      and t: "sent t = sent s @ [0]"
      unfolding fu by auto
    have "sendmmsg_loop fuel P f flgs 0 msgs (s\<lparr>logged := l\<rparr>) = Some (- EWOULDBLOCK, msgs, g, t)"
      by (simp add: sendmmsg_loop_step [OF i sm])
    then show "\<exists>s1. sys_sendmmsg fuel P sockfd msgvec msgs flgs s = Some (- EWOULDBLOCK, msgs, s1)
                 \<and> sent s1 = sent s @ [0]"
      using eq t by (simp add: store_socket_file_def)
  next
    assume "events f AND FD_WRITE = 0 \<and> flags f AND O_NONBLOCK \<noteq> 0
          \<and> (\<forall>c. fst (WSAEnumNetworkEvents_result P c (socket f)) AND FD_WRITE = 0)"
    then have b: "events f AND FD_WRITE = 0" "flags f AND O_NONBLOCK \<noteq> 0"
      "\<forall>c. fst (WSAEnumNetworkEvents_result P c (socket f)) AND FD_WRITE = 0"
      by simp_all
    from socket_sendmsg_would_block [OF b, of fu "msg_hdr (msgs ! 0)" flgs "s\<lparr>logged := l\<rparr>"]
    obtain g t where
      sm: "socket_sendmsg fuel P f (msg_hdr (msgs ! 0)) flgs (s\<lparr>logged := l\<rparr>)
             = Some (- EWOULDBLOCK, g, t)"
      and t: "sent t = sent s"
      unfolding fu by auto
    have "- EWOULDBLOCK < 0" by (simp add: EWOULDBLOCK_def)
    then have "sendmmsg_loop fuel P f flgs 0 msgs (s\<lparr>logged := l\<rparr>) = Some (- EWOULDBLOCK, msgs, g, t)"
      by (simp add: sendmmsg_loop_step [OF i sm])
    then show "\<exists>s1. sys_sendmmsg fuel P sockfd msgvec msgs flgs s = Some (- EWOULDBLOCK, msgs, s1)
                 \<and> sent s1 = sent s"
      using eq t by (simp add: store_socket_file_def)
  qed
qed

theorem sys_sendmmsg_zero_byte_first_message_witness:
  "(\<exists>s1. sys_sendmmsg (Suc 0) example_platform 3 1000 [example_msg 100 0, example_msg 200 6] 0 ready_state
       = Some (- EWOULDBLOCK, [example_msg 100 0, example_msg 200 6], s1) \<and> sent s1 = [0])
   \<and> (\<exists>s1. sys_sendmmsg (Suc 0) example_platform 3 1000 [example_msg 100 0, example_msg 200 6] 0
             (example_state\<lparr>heap := [1 \<mapsto> Socket_file (example_socket\<lparr>flags := O_NONBLOCK\<rparr>)]\<rparr>)
       = Some (- EWOULDBLOCK, [example_msg 100 0, example_msg 200 6], s1) \<and> sent s1 = [])"
proof -
  let ?msgs = "[example_msg 100 0, example_msg 200 6]"
  let ?t = "example_state\<lparr>heap := [1 \<mapsto> Socket_file (example_socket\<lparr>flags := O_NONBLOCK\<rparr>)]\<rparr>"
  have valid: "\<forall>i<length ?msgs.
     fst (mm_check_read_msghdr example_platform (1000 + i * sizeof_mmsghdr example_platform)
            (msg_hdr (?msgs ! i)) s)" for s
    by (auto simp: less_Suc_eq example_msg_def mm_check_read_msghdr_def example_platform_def Let_def)
  have ne: "?msgs \<noteq> []" and fuel: "0 < Suc 0" by simp_all
  have sock2: "get_sockfd ?t 3 = Inr (1, example_socket\<lparr>flags := O_NONBLOCK\<rparr>)"
    by (simp add: get_sockfd_def vfs_get_def example_state_def)
  have zero: "platform_answers example_platform (msg_hdr (?msgs ! 0)) (Native_ok 0)"
    by (simp add: platform_answers_def example_platform_def wsamsg_of_def example_msg_def)
  have ready: "events (example_socket\<lparr>events := FD_WRITE\<rparr>) AND FD_WRITE \<noteq> 0"
    by (simp add: FD_WRITE_def)
  have blocked: "events (example_socket\<lparr>flags := O_NONBLOCK\<rparr>) AND FD_WRITE = 0"
    "flags (example_socket\<lparr>flags := O_NONBLOCK\<rparr>) AND O_NONBLOCK \<noteq> 0"
    "\<forall>c. fst (WSAEnumNetworkEvents_result example_platform c
                (socket (example_socket\<lparr>flags := O_NONBLOCK\<rparr>))) AND FD_WRITE = 0"
    by (simp_all add: example_socket_def O_NONBLOCK_def example_platform_def)
  have "\<exists>s1. sys_sendmmsg (Suc 0) example_platform 3 1000 ?msgs 0 ready_state
       = Some (- EWOULDBLOCK, ?msgs, s1) \<and> sent s1 = sent ready_state @ [0]"
    using sys_sendmmsg_zero_byte_first_message [OF example_writable valid example_sock fuel ne, of 0]
      zero ready by blast
  moreover have "\<exists>s1. sys_sendmmsg (Suc 0) example_platform 3 1000 ?msgs 0 ?t
       = Some (- EWOULDBLOCK, ?msgs, s1) \<and> sent s1 = sent ?t"
    using sys_sendmmsg_zero_byte_first_message [OF example_writable valid sock2 fuel ne, of 0]
      blocked by blast
  ultimately show ?thesis by (simp add: sent_ready_state example_state_def)
qed

end
